theory Spec2Isabelle
  imports Complex_Main
begin

section \<open>Errors\<close>

text \<open>
  The exceptions the Python code can raise. \<open>RuntimeError\<close> is the tensor library's own
  error: an index out of bounds or a size mismatch in \<open>gather\<close>, shapes that do not
  broadcast, an ambiguous \<open>reshape\<close>, \<open>chunk\<close> of a 0-dimensional tensor.
\<close>

datatype error =
    TypeError
  | AttributeError
  | IndexError
  | KeyError
  | ValueError
  | ZeroDivisionError
  | UnboundLocalError
  | RuntimeError
  | OSError

fun bindE :: "error + 'a \<Rightarrow> ('a \<Rightarrow> error + 'b) \<Rightarrow> error + 'b" where
  "bindE (Inl e) f = Inl e"
| "bindE (Inr x) f = f x"

section \<open>Floating-point values\<close>

text \<open>
  Tensor entries and scalar results are floats. A finite float is idealised as an exact
  real number (no rounding, no overflow, a single zero); the two infinities and NaN behave
  as in IEEE 754: NaN absorbs, \<open>inf - inf\<close> and \<open>0 * inf\<close> are NaN, and a division by
  zero gives an infinity or NaN instead of raising.
\<close>

datatype fl = Fin real | PInf | NInf | NaN

fun fl_add :: "fl \<Rightarrow> fl \<Rightarrow> fl" where
  "fl_add (Fin a) (Fin b) = Fin (a + b)"
| "fl_add NaN y = NaN"
| "fl_add x NaN = NaN"
| "fl_add PInf NInf = NaN"
| "fl_add NInf PInf = NaN"
| "fl_add PInf y = PInf"
| "fl_add NInf y = NInf"
| "fl_add x PInf = PInf"
| "fl_add x NInf = NInf"

fun fl_mul :: "fl \<Rightarrow> fl \<Rightarrow> fl" where
  "fl_mul (Fin a) (Fin b) = Fin (a * b)"
| "fl_mul NaN y = NaN"
| "fl_mul x NaN = NaN"
| "fl_mul (Fin a) PInf = (if 0 < a then PInf else if a < 0 then NInf else NaN)"
| "fl_mul (Fin a) NInf = (if 0 < a then NInf else if a < 0 then PInf else NaN)"
| "fl_mul PInf (Fin b) = (if 0 < b then PInf else if b < 0 then NInf else NaN)"
| "fl_mul NInf (Fin b) = (if 0 < b then NInf else if b < 0 then PInf else NaN)"
| "fl_mul PInf PInf = PInf"
| "fl_mul PInf NInf = NInf"
| "fl_mul NInf PInf = NInf"
| "fl_mul NInf NInf = PInf"

fun fl_neg :: "fl \<Rightarrow> fl" where
  "fl_neg (Fin a) = Fin (- a)"
| "fl_neg PInf = NInf"
| "fl_neg NInf = PInf"
| "fl_neg NaN = NaN"

instantiation fl :: comm_monoid_add
begin

definition zero_fl :: fl where
  "zero_fl = Fin 0"

definition plus_fl :: "fl \<Rightarrow> fl \<Rightarrow> fl" where
  "plus_fl x y = fl_add x y"

instance
proof
  fix a b c :: fl
  show "a + b + c = a + (b + c)"
    unfolding plus_fl_def by (cases a; cases b; cases c) simp_all
  show "a + b = b + a"
    unfolding plus_fl_def by (cases a; cases b) simp_all
  show "0 + a = a"
    unfolding plus_fl_def zero_fl_def by (cases a) simp_all
qed

end

instantiation fl :: "{one, times, uminus}"
begin

definition one_fl :: fl where
  "one_fl = Fin 1"

definition times_fl :: "fl \<Rightarrow> fl \<Rightarrow> fl" where
  "times_fl x y = fl_mul x y"

definition uminus_fl :: "fl \<Rightarrow> fl" where
  "uminus_fl x = fl_neg x"

instance ..

end

instance fl :: numeral ..

text \<open>The quotient of two real numbers as a float, and of a float by a real number.\<close>

definition fdiv :: "real \<Rightarrow> real \<Rightarrow> fl" where
  "fdiv x y =
     (if y \<noteq> 0 then Fin (x / y) else if 0 < x then PInf else if x < 0 then NInf else NaN)"

fun fl_div :: "fl \<Rightarrow> real \<Rightarrow> fl" where
  "fl_div (Fin x) d = fdiv x d"
| "fl_div PInf d = (if d < 0 then NInf else PInf)"
| "fl_div NInf d = (if d < 0 then PInf else NInf)"
| "fl_div NaN d = NaN"

fun fl_exp :: "fl \<Rightarrow> fl" where
  "fl_exp (Fin x) = Fin (exp x)"
| "fl_exp PInf = PInf"
| "fl_exp NInf = Fin 0"
| "fl_exp NaN = NaN"

text \<open>
  A count is either a Python int or a 0-dimensional tensor: dividing two Python ints
  raises on zero, dividing a tensor does not.
\<close>

datatype num = PyInt int | TNum real

fun num_val :: "num \<Rightarrow> real" where
  "num_val (PyInt i) = real_of_int i"
| "num_val (TNum x) = x"

fun num_div :: "num \<Rightarrow> nat \<Rightarrow> error + fl" where
  "num_div (PyInt i) n =
     (if n = 0 then Inl ZeroDivisionError else Inr (Fin (real_of_int i / real n)))"
| "num_div (TNum x) n = Inr (fdiv x (real n))"

datatype logval = LFl fl | LNum num | LNat nat

type_synonym logging = "string \<rightharpoonup> logval"

section \<open>Dense tensors\<close>

text \<open>A tensor is its shape and its entries in row-major order.\<close>

datatype 'a tensor = Tensor (shape: "nat list") (data: "'a list")

definition wf_tensor :: "'a tensor \<Rightarrow> bool" where
  "wf_tensor t = (length (data t) = prod_list (shape t))"

definition numel :: "'a tensor \<Rightarrow> nat" where
  "numel t = prod_list (shape t)"

definition ndim :: "'a tensor \<Rightarrow> nat" where
  "ndim t = length (shape t)"

text \<open>The \<open>n\<close> consecutive rows of length \<open>c\<close> of a row-major list.\<close>

definition rows_of :: "nat \<Rightarrow> nat \<Rightarrow> 'a list \<Rightarrow> 'a list list" where
  "rows_of n c xs = map (\<lambda>i. take c (drop (i * c) xs)) [0..<n]"

text \<open>
  Row-major positions: \<open>unravel s p\<close> is the multi-index of position \<open>p\<close> in a tensor of
  shape \<open>s\<close>, and \<open>ravel s js\<close> the position of the multi-index \<open>js\<close>.
\<close>

fun unravel :: "nat list \<Rightarrow> nat \<Rightarrow> nat list" where
  "unravel [] p = []"
| "unravel (d # ds) p = (p div prod_list ds) # unravel ds (p mod prod_list ds)"

fun ravel :: "nat list \<Rightarrow> nat list \<Rightarrow> nat" where
  "ravel (d # ds) (j # js) = j * prod_list ds + ravel ds js"
| "ravel ds js = 0"

text \<open>
  Broadcasting. Shapes are aligned at the right; a shape broadcasts to a target if, after
  padding it with leading ones, each of its sizes is the target's size or one. Position
  \<open>p\<close> of the target then reads position \<open>bidx s t p\<close> of the tensor of shape \<open>s\<close>: the
  index is 0 along every dimension of size one.
\<close>

definition pad_shape :: "nat \<Rightarrow> nat list \<Rightarrow> nat list" where
  "pad_shape n s = replicate (n - length s) 1 @ s"

definition broadcastable_to :: "nat list \<Rightarrow> nat list \<Rightarrow> bool" where
  "broadcastable_to s t =
     (length s \<le> length t \<and> list_all2 (\<lambda>d e. d = e \<or> d = 1) (pad_shape (length t) s) t)"

definition bidx :: "nat list \<Rightarrow> nat list \<Rightarrow> nat \<Rightarrow> nat" where
  "bidx s t p =
     (let ps = pad_shape (length t) s
      in ravel ps (map2 (\<lambda>d j. if d = 1 then 0 else j) ps (unravel t p)))"

text \<open>The common shape of two operands, on the reversed shapes.\<close>

fun bshape_rev :: "nat list \<Rightarrow> nat list \<Rightarrow> nat list option" where
  "bshape_rev [] ys = Some ys"
| "bshape_rev xs [] = Some xs"
| "bshape_rev (x # xs) (y # ys) =
     (if x = y \<or> y = 1 then map_option ((#) x) (bshape_rev xs ys)
      else if x = 1 then map_option ((#) y) (bshape_rev xs ys)
      else None)"

definition broadcast_shapes :: "nat list \<Rightarrow> nat list \<Rightarrow> nat list option" where
  "broadcast_shapes a b = map_option rev (bshape_rev (rev a) (rev b))"

text \<open>An elementwise operation on two tensors, with broadcasting.\<close>

definition binop :: "('a \<Rightarrow> 'b \<Rightarrow> 'c) \<Rightarrow> 'a tensor \<Rightarrow> 'b tensor \<Rightarrow> error + 'c tensor" where
  "binop f a b =
     (case broadcast_shapes (shape a) (shape b) of
        None \<Rightarrow> Inl RuntimeError
      | Some s \<Rightarrow>
          Inr (Tensor s
            (map (\<lambda>p. f (data a ! bidx (shape a) s p) (data b ! bidx (shape b) s p))
               [0..<prod_list s])))"

definition add_t :: "fl tensor \<Rightarrow> fl tensor \<Rightarrow> error + fl tensor" where
  "add_t a b = binop (+) a b"

definition mul_t :: "fl tensor \<Rightarrow> fl tensor \<Rightarrow> error + fl tensor" where
  "mul_t a b = binop (*) a b"

text \<open>\<open>t.expand(sh)\<close>\<close>

definition expand_to :: "'a tensor \<Rightarrow> nat list \<Rightarrow> error + 'a tensor" where
  "expand_to t sh =
     (if broadcastable_to (shape t) sh
      then Inr (Tensor sh (map (\<lambda>p. data t ! bidx (shape t) sh p) [0..<prod_list sh]))
      else Inl RuntimeError)"

text \<open>
  \<open>t.masked_fill_(m, v)\<close> works in place: the mask has to broadcast to the shape of \<open>t\<close>.
\<close>

definition masked_fill :: "'a tensor \<Rightarrow> bool tensor \<Rightarrow> 'a \<Rightarrow> error + 'a tensor" where
  "masked_fill t m v =
     (if broadcastable_to (shape m) (shape t)
      then Inr (Tensor (shape t)
             (map (\<lambda>p. if data m ! bidx (shape m) (shape t) p then v else data t ! p)
                [0..<prod_list (shape t)]))
      else Inl RuntimeError)"

definition unsqueeze_last :: "'a tensor \<Rightarrow> 'a tensor" where
  "unsqueeze_last t = Tensor (shape t @ [1]) (data t)"

definition squeeze_last :: "'a tensor \<Rightarrow> 'a tensor" where
  "squeeze_last t =
     (if shape t \<noteq> [] \<and> last (shape t) = 1 then Tensor (butlast (shape t)) (data t) else t)"

text \<open>
  \<open>input.gather(dim=-1, index)\<close>. The library treats a 0-dimensional tensor as one of
  shape \<open>[1]\<close> here, returns at once on an empty index, and otherwise asks for the same
  number of dimensions, for an index no larger than the input in every dimension but the
  last, and for entries in \<open>0 ..< C\<close> (negative indices do not wrap). The result has the
  shape of the index: its entry at \<open>(i, k)\<close> is entry \<open>index[i, k]\<close> of row \<open>i\<close> of the
  input.
\<close>

definition nonempty_shape :: "nat list \<Rightarrow> nat list" where
  "nonempty_shape s = (if s = [] then [1] else s)"

definition gather_last :: "'a tensor \<Rightarrow> int tensor \<Rightarrow> error + 'a tensor" where
  "gather_last input index =
     (let si = nonempty_shape (shape input);
          sx = nonempty_shape (shape index);
          C = last si;
          K = last sx
      in if prod_list (shape index) = 0 then Inr (Tensor (shape index) [])
         else if length sx \<noteq> length si \<or> \<not> list_all2 (\<le>) (butlast sx) (butlast si)
         then Inl RuntimeError
         else if \<not> list_all (\<lambda>i. 0 \<le> i \<and> i < int C) (data index) then Inl RuntimeError
         else Inr (Tensor (shape index)
                (map (\<lambda>p. data input !
                        (ravel (butlast si) (unravel (butlast sx) (p div K)) * C +
                         nat (data index ! p)))
                   [0..<prod_list (shape index)])))"

text \<open>\<open>t.sum(dim=-1, keepdim=True)\<close>\<close>

definition sum_last_keepdim :: "fl tensor \<Rightarrow> fl tensor" where
  "sum_last_keepdim t =
     (if shape t = [] then t
      else Tensor (butlast (shape t) @ [1])
        (map sum_list (rows_of (prod_list (butlast (shape t))) (last (shape t)) (data t))))"

definition neg :: "fl tensor \<Rightarrow> fl tensor" where
  "neg t = Tensor (shape t) (map uminus (data t))"

definition eq_scalar :: "int tensor \<Rightarrow> int \<Rightarrow> bool tensor" where
  "eq_scalar t v = Tensor (shape t) (map (\<lambda>x. x = v) (data t))"

text \<open>\<open>t.sum()\<close> as a 0-dimensional tensor, and the product with a Python float.\<close>

definition sum_all :: "fl tensor \<Rightarrow> fl tensor" where
  "sum_all t = Tensor [] [sum_list (data t)]"

definition scale :: "real \<Rightarrow> fl tensor \<Rightarrow> fl tensor" where
  "scale c t = Tensor (shape t) (map (\<lambda>x. Fin c * x) (data t))"

text \<open>\<open>t.size(-1)\<close>: an IndexError on a 0-dimensional tensor.\<close>

definition size_last :: "'a tensor \<Rightarrow> error + nat" where
  "size_last t = (if shape t = [] then Inl IndexError else Inr (last (shape t)))"

section \<open>modules/cross_entropy.py: label_smoothed_nll_loss\<close>

text \<open>
  The function line by line. \<open>epsilon\<close> is a Python float and \<open>lprobs.size(-1)\<close> a
  Python int, so \<open>epsilon / (lprobs.size(-1) - 1)\<close> raises ZeroDivisionError when there
  is a single class. With \<open>reduce\<close> the two results are 0-dimensional tensors.
\<close>

definition label_smoothed_nll_loss ::
  "fl tensor \<Rightarrow> int tensor \<Rightarrow> real \<Rightarrow> int option \<Rightarrow> bool \<Rightarrow> error + (fl tensor \<times> fl tensor)"
where
  "label_smoothed_nll_loss lprobs target0 epsilon ignore_index reduce =
     (let flag = (int (ndim target0) = int (ndim lprobs) - 1);
          target = (if flag then unsqueeze_last target0 else target0)
      in
      bindE (gather_last lprobs target) (\<lambda>g.
      let nll_loss = neg g;
          smooth_loss = neg (sum_last_keepdim lprobs)
      in
      bindE (case ignore_index of
               None \<Rightarrow> Inr (nll_loss, smooth_loss)
             | Some ig \<Rightarrow>
                 let pad_mask = eq_scalar target ig in
                 bindE (masked_fill nll_loss pad_mask 0) (\<lambda>n.
                 bindE (masked_fill smooth_loss pad_mask 0) (\<lambda>s. Inr (n, s))))
        (\<lambda>(nll_loss, smooth_loss).
      let nll_loss = (if flag then squeeze_last nll_loss else nll_loss);
          smooth_loss = (if flag then squeeze_last smooth_loss else smooth_loss);
          nll_loss = (if reduce then sum_all nll_loss else nll_loss);
          smooth_loss = (if reduce then sum_all smooth_loss else smooth_loss)
      in
      bindE (size_last lprobs) (\<lambda>C.
      if C = 1 then Inl ZeroDivisionError
      else
        let eps_i = epsilon / real_of_int (int C - 1) in
        bindE (add_t (scale (1 - epsilon - eps_i) nll_loss) (scale eps_i smooth_loss))
          (\<lambda>loss. Inr (loss, nll_loss))))))"

section \<open>Further tensor operations\<close>

text \<open>\<open>t.sum()\<close>, and the value of a 0-dimensional tensor.\<close>

definition tsum :: "fl tensor \<Rightarrow> fl" where
  "tsum t = sum_list (data t)"

text \<open>\<open>m.float()\<close> of a boolean mask, and the sum of its entries.\<close>

definition to_float :: "bool tensor \<Rightarrow> fl tensor" where
  "to_float m = Tensor (shape m) (map (\<lambda>b. if b then 1 else 0) (data m))"

definition count_true :: "bool tensor \<Rightarrow> real" where
  "count_true m = real (length (filter (\<lambda>b. b) (data m)))"

text \<open>\<open>target.ne(ignore_index).float().sum()\<close>\<close>

definition count_ne :: "int tensor \<Rightarrow> int \<Rightarrow> real" where
  "count_ne t v = real (length (filter (\<lambda>x. x \<noteq> v) (data t)))"

text \<open>
  \<open>F.log_softmax(scores, dim=-1)\<close>, row by row: \<open>x - log (sum (exp x))\<close>. An entry
  \<open>-inf\<close> adds nothing to the sum and stays \<open>-inf\<close>; a row that holds \<open>+inf\<close> or NaN,
  or nothing but \<open>-inf\<close>, becomes NaN.
\<close>

definition log_softmax_row :: "fl list \<Rightarrow> fl list" where
  "log_softmax_row r =
     (if list_ex (\<lambda>x. x = NaN \<or> x = PInf) r \<or> list_all (\<lambda>x. x = NInf) r
      then map (\<lambda>x. NaN) r
      else
        let z = ln (sum_list (map (\<lambda>x. case x of Fin a \<Rightarrow> exp a | _ \<Rightarrow> 0) r))
        in map (\<lambda>x. case x of Fin a \<Rightarrow> Fin (a - z) | _ \<Rightarrow> NInf) r)"

definition log_softmax :: "fl tensor \<Rightarrow> fl tensor" where
  "log_softmax t =
     (if shape t = [] then Tensor [] (log_softmax_row (data t))
      else Tensor (shape t)
        (concat (map log_softmax_row
           (rows_of (prod_list (butlast (shape t))) (last (shape t)) (data t)))))"

text \<open>\<open>scores.shape[0], scores.shape[-1]\<close>\<close>

definition shape_first_last :: "'a tensor \<Rightarrow> error + (nat \<times> nat)" where
  "shape_first_last t =
     (if shape t = [] then Inl IndexError else Inr (hd (shape t), last (shape t)))"

text \<open>
  \<open>t[mask]\<close> for a boolean mask over the leading dimensions of \<open>t\<close>: the blocks of \<open>t\<close>
  at the positions where the mask holds, in order.
\<close>

definition bool_index :: "'a tensor \<Rightarrow> bool tensor \<Rightarrow> error + 'a tensor" where
  "bool_index t m =
     (if ndim m \<le> ndim t \<and> take (ndim m) (shape t) = shape m
      then
        let rest = drop (ndim m) (shape t);
            blocks = rows_of (numel m) (prod_list rest) (data t);
            sel = map snd (filter fst (zip (data m) blocks))
        in Inr (Tensor (length sel # rest) (concat sel))
      else Inl IndexError)"

text \<open>\<open>t.reshape(-1, c)\<close> and \<open>t.reshape(-1)\<close>\<close>

definition reshape_rows :: "'a tensor \<Rightarrow> nat \<Rightarrow> error + 'a tensor" where
  "reshape_rows t c =
     (if c = 0 \<or> numel t mod c \<noteq> 0 then Inl RuntimeError
      else Inr (Tensor [numel t div c, c] (data t)))"

definition flatten :: "'a tensor \<Rightarrow> 'a tensor" where
  "flatten t = Tensor [numel t] (data t)"

text \<open>
  \<open>a, b = t.chunk(2)\<close>: two halves along the first dimension, the first one the larger.
  A first dimension of 1 gives a single chunk, and the unpacking raises; a first dimension
  of 0 gives two empty chunks.
\<close>

definition chunk2 :: "'a tensor \<Rightarrow> error + ('a tensor \<times> 'a tensor)" where
  "chunk2 t =
     (case shape t of
        [] \<Rightarrow> Inl RuntimeError
      | n # rest \<Rightarrow>
          if n = 1 then Inl ValueError
          else
            let k = (n + 1) div 2; m = prod_list rest
            in Inr (Tensor (k # rest) (take (k * m) (data t)),
                    Tensor ((n - k) # rest) (drop (k * m) (data t))))"

text \<open>\<open>w.new_ones(size=w.size())\<close>\<close>

definition new_ones :: "fl tensor \<Rightarrow> fl tensor" where
  "new_ones w = Tensor (shape w) (replicate (prod_list (shape w)) 1)"

section \<open>modules/cross_entropy.py: the loss classes\<close>

text \<open>The attributes of \<open>nn.CrossEntropyLoss\<close> that the forward methods read.\<close>

record loss_cfg =
  ignore_index :: "int option"
  label_smoothing :: real

text \<open>
  \<open>CrossEntropyLoss.forward\<close>. Its second statement calls \<open>target.ne(self.ignore_index)\<close>
  whatever \<open>self.ignore_index\<close> is, and \<open>Tensor.ne\<close> takes a tensor or a number: on
  \<open>None\<close> it raises TypeError. The sample size and the two counts are tensors here, so
  the divisions by them and by \<open>n_tokens\<close> never raise.
\<close>

definition CrossEntropyLoss_forward ::
  "loss_cfg \<Rightarrow> fl tensor \<Rightarrow> int tensor \<Rightarrow> bool tensor option \<Rightarrow> error + (fl \<times> logging)"
where
  "CrossEntropyLoss_forward self scores0 target0 msk =
     (let n_tokens = numel target0 in
      bindE (case ignore_index self of
               None \<Rightarrow> Inl TypeError
             | Some ig \<Rightarrow> Inr (count_ne target0 ig)) (\<lambda>n_nonpad_tokens.
      bindE (shape_first_last scores0) (\<lambda>(bsz, num_classes).
      bindE (case msk of
               None \<Rightarrow> Inr (scores0, target0)
             | Some m \<Rightarrow>
                 bindE (bool_index scores0 m) (\<lambda>s.
                 bindE (bool_index target0 m) (\<lambda>t. Inr (s, t)))) (\<lambda>(scores1, target1).
      bindE (reshape_rows scores1 num_classes) (\<lambda>scores.
      let target = flatten target1;
          sample_size = (case ignore_index self of
                           Some ig \<Rightarrow> count_ne target ig
                         | None \<Rightarrow> real (numel target))
      in
      bindE (label_smoothed_nll_loss (log_softmax scores) target (label_smoothing self)
               (ignore_index self) True) (\<lambda>(loss, nll_loss).
      let loss_avg = fl_div (tsum loss) sample_size;
          ppl = fl_exp (fl_div (tsum nll_loss) sample_size)
      in
      Inr (loss_avg,
           [''nll_loss_sum'' \<mapsto> LFl (tsum nll_loss),
            ''loss_sum'' \<mapsto> LFl (tsum loss),
            ''ppl'' \<mapsto> LFl ppl,
            ''bsz'' \<mapsto> LNat bsz,
            ''sample_size'' \<mapsto> LNum (TNum sample_size),
            ''sample_ratio'' \<mapsto> LFl (fdiv sample_size (real n_tokens)),
            ''nonpad_ratio'' \<mapsto> LFl (fdiv n_nonpad_tokens (real n_tokens))])))))))"

text \<open>
  Two blocks that the three masked classes share word for word: the count of non-pad
  tokens (a tensor with an ignored index, otherwise the Python int \<open>n_tokens\<close>) and the
  weighting of the per-position losses.
\<close>

definition nonpad_count :: "loss_cfg \<Rightarrow> int tensor \<Rightarrow> num" where
  "nonpad_count self target =
     (case ignore_index self of
        Some ig \<Rightarrow> TNum (count_ne target ig)
      | None \<Rightarrow> PyInt (int (numel target)))"

definition apply_weights ::
  "fl tensor option \<Rightarrow> fl tensor \<Rightarrow> fl tensor \<Rightarrow> error + (fl tensor \<times> fl tensor)"
where
  "apply_weights weights loss nll_loss =
     (case weights of
        None \<Rightarrow> Inr (loss, nll_loss)
      | Some w \<Rightarrow>
          bindE (mul_t loss w) (\<lambda>l.
          bindE (mul_t nll_loss w) (\<lambda>n. Inr (l, n))))"

definition Coord2SeqCrossEntropyLoss_forward ::
  "loss_cfg \<Rightarrow> fl tensor \<Rightarrow> int tensor \<Rightarrow> bool tensor option \<Rightarrow> bool tensor option \<Rightarrow>
   fl tensor option \<Rightarrow> error + (fl \<times> logging)"
where
  "Coord2SeqCrossEntropyLoss_forward self scores target label_mask0 coord_mask weights =
     (let label_mask = (case label_mask0 of None \<Rightarrow> coord_mask | Some m \<Rightarrow> Some m) in
      bindE (shape_first_last scores) (\<lambda>(bsz, num_classes).
      let n_tokens = numel target;
          sample_size0 = nonpad_count self target;
          n_nonpad_tokens = sample_size0
      in
      bindE (label_smoothed_nll_loss (log_softmax scores) target (label_smoothing self)
               (ignore_index self) False) (\<lambda>(loss0, nll_loss0).
      bindE (apply_weights weights loss0 nll_loss0) (\<lambda>(loss1, nll_loss1).
      let fullseq_loss = fl_div (tsum loss1) (num_val sample_size0);
          fullseq_nll_loss = fl_div (tsum nll_loss1) (num_val sample_size0)
      in
      bindE (case label_mask of
               Some m \<Rightarrow>
                 let lm = to_float m;
                     sample_size = TNum (count_true m)
                 in
                 bindE (mul_t loss1 lm) (\<lambda>l.
                 bindE (mul_t nll_loss1 lm) (\<lambda>n.
                 Inr (sample_size, fl_div (tsum l) (num_val sample_size),
                      fl_div (tsum n) (num_val sample_size))))
             | None \<Rightarrow> Inr (sample_size0, fullseq_loss, fullseq_nll_loss))
        (\<lambda>(sample_size, loss, nll_loss).
      let ppl = fl_exp nll_loss in
      bindE (num_div sample_size n_tokens) (\<lambda>sample_ratio.
      bindE (num_div n_nonpad_tokens n_tokens) (\<lambda>nonpad_ratio.
      Inr (loss,
           [''nll_loss'' \<mapsto> LFl nll_loss,
            ''ppl'' \<mapsto> LFl ppl,
            ''fullseq_loss'' \<mapsto> LFl fullseq_loss,
            ''fullseq_nll_loss'' \<mapsto> LFl fullseq_nll_loss,
            ''bsz'' \<mapsto> LNat bsz,
            ''sample_size'' \<mapsto> LNum sample_size,
            ''sample_ratio'' \<mapsto> LFl sample_ratio,
            ''nonpad_ratio'' \<mapsto> LFl nonpad_ratio]))))))))"

text \<open>
  The \<open>watch_t1_t2_loss\<close> block (the same lines in \<open>RDMCrossEntropyLoss\<close> and in
  \<open>StructAARDMCrossEntropyLoss\<close>): the loss is chunked first, then the mask, which
  is still the caller's argument and may be \<open>None\<close>.
\<close>

definition watch_t1_t2 :: "fl tensor \<Rightarrow> bool tensor option \<Rightarrow> error + (fl \<times> fl)" where
  "watch_t1_t2 loss label_mask =
     bindE (chunk2 loss) (\<lambda>(t1_loss, t2_loss).
     bindE (case label_mask of None \<Rightarrow> Inl AttributeError | Some m \<Rightarrow> chunk2 m)
       (\<lambda>(t1_mask, t2_mask).
     bindE (mul_t t1_loss (to_float t1_mask)) (\<lambda>p1.
     bindE (mul_t t2_loss (to_float t2_mask)) (\<lambda>p2.
     Inr (fl_div (tsum p1) (count_true t1_mask),
          fl_div (tsum p2) (count_true t2_mask))))))"

text \<open>
  The \<open>cal_constant_loss\<close> block: \<open>weights.new_ones\<close> needs \<open>weights\<close>, and the product
  with \<open>label_mask\<close> needs the mask; \<open>label_mask\<close> here is the variable after the masked
  mean (the float mask, or still \<open>None\<close>).
\<close>

definition constant_diff_loss ::
  "loss_cfg \<Rightarrow> fl tensor \<Rightarrow> int tensor \<Rightarrow> fl tensor option \<Rightarrow> fl tensor option \<Rightarrow>
   num \<Rightarrow> error + fl"
where
  "constant_diff_loss self scores target weights label_mask sample_size =
     bindE (case weights of None \<Rightarrow> Inl AttributeError | Some w \<Rightarrow> Inr (new_ones w))
       (\<lambda>constant_weights.
     bindE (label_smoothed_nll_loss (log_softmax scores) target (label_smoothing self)
              (ignore_index self) False) (\<lambda>(constant_loss0, _).
     bindE (mul_t constant_loss0 constant_weights) (\<lambda>constant_loss.
     bindE (case label_mask of None \<Rightarrow> Inl TypeError | Some lm \<Rightarrow> mul_t constant_loss lm)
       (\<lambda>p. Inr (fl_div (tsum p) (num_val sample_size))))))"

definition RDMCrossEntropyLoss_forward ::
  "loss_cfg \<Rightarrow> fl tensor \<Rightarrow> int tensor \<Rightarrow> bool tensor option \<Rightarrow> fl tensor option \<Rightarrow>
   bool \<Rightarrow> bool \<Rightarrow> error + (fl \<times> logging)"
where
  "RDMCrossEntropyLoss_forward self scores target label_mask0 weights cal_constant_loss
       watch_t1_t2_loss =
     bindE (shape_first_last scores) (\<lambda>(bsz, num_classes).
     let n_tokens = numel target;
         sample_size0 = nonpad_count self target;
         n_nonpad_tokens = sample_size0
     in
     bindE (label_smoothed_nll_loss (log_softmax scores) target (label_smoothing self)
              (ignore_index self) False) (\<lambda>(loss0, nll_loss0).
     bindE (apply_weights weights loss0 nll_loss0) (\<lambda>(loss1, nll_loss1).
     let fullseq_loss = fl_div (tsum loss1) (num_val sample_size0);
         fullseq_nll_loss = fl_div (tsum nll_loss1) (num_val sample_size0)
     in
     bindE (if watch_t1_t2_loss
            then bindE (watch_t1_t2 loss1 label_mask0) (\<lambda>t. Inr (Some t))
            else Inr None) (\<lambda>t1_t2.
     bindE (case label_mask0 of
              Some m \<Rightarrow>
                let lm = to_float m;
                    sample_size = TNum (count_true m)
                in
                bindE (mul_t loss1 lm) (\<lambda>l.
                bindE (mul_t nll_loss1 lm) (\<lambda>n.
                Inr (Some lm, sample_size, fl_div (tsum l) (num_val sample_size),
                     fl_div (tsum n) (num_val sample_size))))
            | None \<Rightarrow> Inr (None, sample_size0, fullseq_loss, fullseq_nll_loss))
       (\<lambda>(label_mask, sample_size, loss, nll_loss).
     let ppl = fl_exp nll_loss in
     bindE (num_div sample_size n_tokens) (\<lambda>sample_ratio.
     bindE (num_div n_nonpad_tokens n_tokens) (\<lambda>nonpad_ratio.
     let logging_output =
           [''nll_loss'' \<mapsto> LFl nll_loss,
            ''ppl'' \<mapsto> LFl ppl,
            ''fullseq_loss'' \<mapsto> LFl fullseq_loss,
            ''fullseq_nll_loss'' \<mapsto> LFl fullseq_nll_loss,
            ''bsz'' \<mapsto> LNat bsz,
            ''sample_size'' \<mapsto> LNum sample_size,
            ''sample_ratio'' \<mapsto> LFl sample_ratio,
            ''nonpad_ratio'' \<mapsto> LFl nonpad_ratio,
            ''weight_diff_loss'' \<mapsto> LFl loss]
     in
     bindE (if cal_constant_loss
            then bindE (constant_diff_loss self scores target weights label_mask sample_size)
                   (\<lambda>c. Inr (logging_output(''constant_diff_loss'' \<mapsto> LFl c)))
            else Inr logging_output) (\<lambda>logging_output1.
     Inr (loss,
          case t1_t2 of
            Some (t1_loss, t2_loss) \<Rightarrow>
              logging_output1(''weight_diff_t1_loss'' \<mapsto> LFl t1_loss,
                              ''weight_diff_t2_loss'' \<mapsto> LFl t2_loss)
          | None \<Rightarrow> logging_output1)))))))))"

text \<open>
  \<open>StructAARDMCrossEntropyLoss.forward\<close>: the inner function \<open>compute\<close>, with the two
  flags of the enclosing call, then the call itself on one tensor or on dicts.
\<close>

definition compute ::
  "loss_cfg \<Rightarrow> bool \<Rightarrow> bool \<Rightarrow> fl tensor \<Rightarrow> int tensor \<Rightarrow> bool tensor option \<Rightarrow>
   fl tensor option \<Rightarrow> string \<Rightarrow> error + (fl \<times> fl \<times> logging)"
where
  "compute self cal_constant_loss watch_t1_t2_loss scores target label_mask0 weights key0 =
     (let key = (if length key0 > 0 then key0 @ ''/'' else key0) in
      bindE (shape_first_last scores) (\<lambda>(bsz, num_classes).
      let n_tokens = numel target;
          sample_size0 = nonpad_count self target;
          n_nonpad_tokens = sample_size0
      in
      bindE (label_smoothed_nll_loss (log_softmax scores) target (label_smoothing self)
               (ignore_index self) False) (\<lambda>(loss0, nll_loss0).
      bindE (apply_weights weights loss0 nll_loss0) (\<lambda>(loss1, nll_loss1).
      let fullseq_loss = fl_div (tsum loss1) (num_val sample_size0);
          fullseq_nll_loss = fl_div (tsum nll_loss1) (num_val sample_size0)
      in
      bindE (if watch_t1_t2_loss
             then bindE (watch_t1_t2 loss1 label_mask0) (\<lambda>t. Inr (Some t))
             else Inr None) (\<lambda>t1_t2.
      bindE (case label_mask0 of
               Some m \<Rightarrow>
                 let lm0 = to_float m;
                     sample_size = (if 1 < count_true m then TNum (count_true m) else PyInt 1)
                 in
                 bindE (if int (ndim lm0) = int (ndim loss1) - 1
                        then expand_to (unsqueeze_last lm0) (shape loss1)
                        else Inr lm0) (\<lambda>lm.
                 bindE (mul_t loss1 lm) (\<lambda>l.
                 bindE (mul_t nll_loss1 lm) (\<lambda>n.
                 Inr (Some lm, sample_size, fl_div (tsum l) (num_val sample_size),
                      fl_div (tsum n) (num_val sample_size)))))
             | None \<Rightarrow> Inr (None, sample_size0, fullseq_loss, fullseq_nll_loss))
        (\<lambda>(label_mask, sample_size, loss, nll_loss).
      let ppl = fl_exp nll_loss in
      bindE (num_div sample_size n_tokens) (\<lambda>sample_ratio.
      bindE (num_div n_nonpad_tokens n_tokens) (\<lambda>nonpad_ratio.
      let logging_output =
            [key @ ''nll_loss'' \<mapsto> LFl nll_loss,
             key @ ''ppl'' \<mapsto> LFl ppl,
             key @ ''fullseq_loss'' \<mapsto> LFl fullseq_loss,
             key @ ''fullseq_nll_loss'' \<mapsto> LFl fullseq_nll_loss,
             key @ ''bsz'' \<mapsto> LNat bsz,
             key @ ''sample_size'' \<mapsto> LNum sample_size,
             key @ ''sample_ratio'' \<mapsto> LFl sample_ratio,
             key @ ''nonpad_ratio'' \<mapsto> LFl nonpad_ratio,
             key @ ''weight_diff_loss'' \<mapsto> LFl loss]
      in
      bindE (if cal_constant_loss
             then bindE (constant_diff_loss self scores target weights label_mask sample_size)
                    (\<lambda>c. Inr (logging_output(key @ ''constant_diff_loss'' \<mapsto> LFl c)))
             else Inr logging_output) (\<lambda>logging_output1.
      Inr (loss, nll_loss,
           case t1_t2 of
             Some (t1_loss, t2_loss) \<Rightarrow>
               logging_output1(key @ ''weight_diff_t1_loss'' \<mapsto> LFl t1_loss,
                               key @ ''weight_diff_t2_loss'' \<mapsto> LFl t2_loss)
           | None \<Rightarrow> logging_output1))))))))))"

text \<open>
  The arguments of the call: tensors, or dicts of them. A dict is the list of its items
  in iteration order; the mask and weight dicts default to \<open>None\<close>, and their values
  may be \<open>None\<close>.
\<close>

datatype struct_input =
    TensorInput "fl tensor" "int tensor" "bool tensor option" "fl tensor option"
  | DictInput "(string \<times> fl tensor) list" "(string \<times> int tensor) list"
      "(string \<times> bool tensor option) list option"
      "(string \<times> fl tensor option) list option"

definition getitem :: "(string \<times> 'a) list \<Rightarrow> string \<Rightarrow> error + 'a" where
  "getitem d k = (case map_of d k of None \<Rightarrow> Inl KeyError | Some v \<Rightarrow> Inr v)"

definition getitem_opt :: "(string \<times> 'a) list option \<Rightarrow> string \<Rightarrow> error + 'a" where
  "getitem_opt d k = (case d of None \<Rightarrow> Inl TypeError | Some d' \<Rightarrow> getitem d' k)"

definition getlog :: "logging \<Rightarrow> string \<Rightarrow> error + logval" where
  "getlog d k = (case d k of None \<Rightarrow> Inl KeyError | Some v \<Rightarrow> Inr v)"

text \<open>
  The variables of the dict loop: the two running sums, the merged log, and the loop
  variable \<open>k\<close> with the last \<open>logging_output\<close> (unbound before the first iteration).
\<close>

record loop_state =
  losses :: fl
  nll_losses :: fl
  logging_output_dict :: logging
  last_iter :: "(string \<times> logging) option"

fun dict_loop ::
  "loss_cfg \<Rightarrow> bool \<Rightarrow> bool \<Rightarrow> (string \<times> int tensor) list \<Rightarrow>
   (string \<times> bool tensor option) list option \<Rightarrow> (string \<times> fl tensor option) list option \<Rightarrow>
   (string \<times> fl tensor) list \<Rightarrow> loop_state \<Rightarrow> error + loop_state"
where
  "dict_loop self cal watch target_dict label_mask_dict weights_dict [] st = Inr st"
| "dict_loop self cal watch target_dict label_mask_dict weights_dict ((k, scores) # rest) st =
     bindE (getitem target_dict k) (\<lambda>target.
     bindE (getitem_opt label_mask_dict k) (\<lambda>label_mask.
     bindE (getitem_opt weights_dict k) (\<lambda>weights.
     bindE (compute self cal watch scores target label_mask weights k)
       (\<lambda>(loss, nll_loss, logging_output).
     dict_loop self cal watch target_dict label_mask_dict weights_dict rest
       \<lparr>losses = fl_add (losses st) loss,
        nll_losses = fl_add (nll_losses st) nll_loss,
        logging_output_dict = logging_output_dict st ++ logging_output,
        last_iter = Some (k, logging_output)\<rparr>))))"

definition StructAARDMCrossEntropyLoss_forward ::
  "loss_cfg \<Rightarrow> struct_input \<Rightarrow> bool \<Rightarrow> bool \<Rightarrow> error + (fl \<times> logging)"
where
  "StructAARDMCrossEntropyLoss_forward self inp cal_constant_loss watch_t1_t2_loss =
     (case inp of
        TensorInput scores target label_mask weights \<Rightarrow>
          bindE (compute self cal_constant_loss watch_t1_t2_loss scores target label_mask
                   weights [])
            (\<lambda>(loss, nll_loss, logging_output). Inr (loss, logging_output))
      | DictInput scores_dict target_dict label_mask_dict weights_dict \<Rightarrow>
          bindE (dict_loop self cal_constant_loss watch_t1_t2_loss target_dict label_mask_dict
                   weights_dict scores_dict
                   \<lparr>losses = Fin 0, nll_losses = Fin 0, logging_output_dict = Map.empty,
                    last_iter = None\<rparr>) (\<lambda>st.
          bindE (case last_iter st of None \<Rightarrow> Inl UnboundLocalError | Some kl \<Rightarrow> Inr kl)
            (\<lambda>(k, logging_output).
          bindE (getlog logging_output (k @ ''/sample_size'')) (\<lambda>v1.
          let d1 = (logging_output_dict st)(''sample_size'' \<mapsto> v1);
              d2 = d1(''nll_loss'' \<mapsto>
                     LFl (fl_div (nll_losses st) (real (length scores_dict))))
          in
          bindE (getlog logging_output (k @ ''/fullseq_loss'')) (\<lambda>v3.
          let d3 = d2(''fullseq_loss'' \<mapsto> v3) in
          bindE (getlog logging_output (k @ ''/fullseq_nll_loss'')) (\<lambda>v4.
          let d4 = d3(''fullseq_nll_loss'' \<mapsto> v4) in
          bindE (getlog logging_output (k @ ''/ppl'')) (\<lambda>v5.
          let d5 = d4(''ppl'' \<mapsto> v5) in
          Inr (fl_div (losses st) (real (length scores_dict)), d5))))))))"

section \<open>debug.py: the alpha-carbon reader\<close>

text \<open>
  The objects of the parsing library that the reader touches: a structure is a list
  of models, a model a list of chains, a chain an id and its residues, a residue its name,
  its id triple and its atoms by name.
\<close>

record atom =
  get_coord :: "real list"
  get_bfactor :: real

record residue =
  get_resname :: string
  res_id :: "string \<times> int \<times> string"
  child_dict :: "(string \<times> atom) list"

record chain_obj =
  chain_id :: string
  child_list :: "residue list"

type_synonym pdb_model = "chain_obj list"

type_synonym pdb_structure = "pdb_model list"

record res_info =
  chain :: string
  resname :: string
  resnum :: int
  ca_coord :: "real list"
  plddt :: real

text \<open>
  The state the function works on: the file system it is given a path into, the parsed
  structure and the list it builds.
\<close>

record world =
  files :: "string \<rightharpoonup> string"

record frame =
  structure_obj :: pdb_structure
  residues_info :: "res_info list"

fun residue_loop :: "string \<Rightarrow> residue list \<Rightarrow> frame \<Rightarrow> error + frame" where
  "residue_loop cid [] fr = Inr fr"
| "residue_loop cid (r # rs) fr =
     (case getitem (child_dict r) ''CA'' of
        Inl e \<Rightarrow> (if e = KeyError then residue_loop cid rs fr else Inl e)
      | Inr ca_atom \<Rightarrow>
          residue_loop cid rs
            (fr\<lparr>residues_info := residues_info fr @
                 [\<lparr>chain = cid,
                   resname = get_resname r,
                   resnum = fst (snd (res_id r)),
                   ca_coord = get_coord ca_atom,
                   plddt = get_bfactor ca_atom\<rparr>]\<rparr>))"

fun chain_loop :: "chain_obj list \<Rightarrow> frame \<Rightarrow> error + frame" where
  "chain_loop [] fr = Inr fr"
| "chain_loop (c # cs) fr =
     bindE (residue_loop (chain_id c) (child_list c) fr) (\<lambda>fr'. chain_loop cs fr')"

fun model_loop :: "pdb_model list \<Rightarrow> frame \<Rightarrow> error + frame" where
  "model_loop [] fr = Inr fr"
| "model_loop (m # ms) fr = bindE (chain_loop m fr) (\<lambda>fr'. model_loop ms fr')"

text \<open>
  \<open>get_structure\<close> stands for \<open>PDBParser().get_structure("protein", pdb_file)\<close> of the
  external library, as a function of the file's text.
\<close>

definition get_alpha_carbon_info ::
  "(string \<Rightarrow> error + pdb_structure) \<Rightarrow> string \<Rightarrow> world \<Rightarrow> (error + res_info list) \<times> world"
where
  "get_alpha_carbon_info get_structure pdb_file w =
     (case files w pdb_file of
        None \<Rightarrow> (Inl OSError, w)
      | Some txt \<Rightarrow>
          (case get_structure txt of
             Inl e \<Rightarrow> (Inl e, w)
           | Inr s \<Rightarrow>
               (case model_loop s \<lparr>structure_obj = s, residues_info = []\<rparr> of
                  Inl e \<Rightarrow> (Inl e, w)
                | Inr fr \<Rightarrow> (Inr (residues_info fr), w))))"

text \<open>
  The reader as the specification words it: one record for each residue that has a
  \<open>CA\<close> atom, in file order.
\<close>

definition has_CA :: "residue \<Rightarrow> bool" where
  "has_CA r = (map_of (child_dict r) ''CA'' \<noteq> None)"

definition ca_record :: "string \<Rightarrow> residue \<Rightarrow> res_info" where
  "ca_record cid r =
     (case map_of (child_dict r) ''CA'' of
        Some ca_atom \<Rightarrow>
          \<lparr>chain = cid, resname = get_resname r, resnum = fst (snd (res_id r)),
           ca_coord = get_coord ca_atom, plddt = get_bfactor ca_atom\<rparr>
      | None \<Rightarrow> \<lparr>chain = cid, resname = get_resname r, resnum = fst (snd (res_id r)),
                 ca_coord = [], plddt = 0\<rparr>)"

definition spec_alpha_carbon_info :: "pdb_structure \<Rightarrow> res_info list" where
  "spec_alpha_carbon_info s =
     concat (map (\<lambda>m. concat (map (\<lambda>c.
       map (ca_record (chain_id c)) (filter has_CA (child_list c))) m)) s)"

section \<open>debug.py: the reader on a heap of objects\<close>

text \<open>
  The same function where objects have an identity, so that a write to one of them is
  visible: the heap is the list of all objects, an address is a position in it. The
  library's objects are entities with a list of children (structure and model), chains,
  residues with their atoms by name, atoms with a coordinate array and a b-factor, and
  arrays; the function itself creates lists and dicts.
\<close>

datatype pyval = VStr string | VInt int | VFloat real | VRef nat

datatype pyobj =
    OEntity "nat list"
  | OChain string "nat list"
  | OResidue string "string \<times> int \<times> string" "(string \<times> nat) list"
  | OAtom nat real
  | OArray "real list"
  | OList "pyval list"
  | ODict "(string \<times> pyval) list"

record heap_world = world +
  heap :: "pyobj list"

definition deref :: "heap_world \<Rightarrow> nat \<Rightarrow> pyobj option" where
  "deref w a = (if a < length (heap w) then Some (heap w ! a) else None)"

definition alloc :: "pyobj \<Rightarrow> heap_world \<Rightarrow> nat \<times> heap_world" where
  "alloc ob w = (length (heap w), w\<lparr>heap := heap w @ [ob]\<rparr>)"

definition store :: "nat \<Rightarrow> pyobj \<Rightarrow> heap_world \<Rightarrow> heap_world" where
  "store a ob w = w\<lparr>heap := (heap w)[a := ob]\<rparr>"

text \<open>
  The body of the innermost loop for the residue at address \<open>ra\<close>, with \<open>lst\<close> the
  address of \<open>residues_info\<close>. The accessors of the library read the object they are
  called on: \<open>residue['CA']\<close> looks the name up in the residue's atoms and raises KeyError
  without it, which the handler catches. \<open>get_coord().tolist()\<close> creates a list with the
  entries of the array, the dict display creates the record, and \<open>append\<close> writes the list
  at \<open>lst\<close>. An object of another kind raises an error that is not caught.
\<close>

definition residue_step :: "string \<Rightarrow> nat \<Rightarrow> nat \<Rightarrow> heap_world \<Rightarrow> (error + unit) \<times> heap_world" where
  "residue_step cid ra lst w =
     (case deref w ra of
        Some (OResidue name rid atoms) \<Rightarrow>
          (case map_of atoms ''CA'' of
             None \<Rightarrow> (Inr (), w)
           | Some aa \<Rightarrow>
               (case deref w aa of
                  Some (OAtom ca bf) \<Rightarrow>
                    (case deref w ca of
                       Some (OArray xs) \<Rightarrow>
                         (let (l, w1) = alloc (OList (map VFloat xs)) w;
                              (d, w2) = alloc (ODict [(''chain'', VStr cid),
                                                      (''resname'', VStr name),
                                                      (''resnum'', VInt (fst (snd rid))),
                                                      (''ca_coord'', VRef l),
                                                      (''plddt'', VFloat bf)]) w1
                          in case deref w2 lst of
                               Some (OList vs) \<Rightarrow> (Inr (), store lst (OList (vs @ [VRef d])) w2)
                             | _ \<Rightarrow> (Inl AttributeError, w2))
                     | _ \<Rightarrow> (Inl AttributeError, w))
                | _ \<Rightarrow> (Inl AttributeError, w)))
      | _ \<Rightarrow> (Inl TypeError, w))"

fun residue_loop_h :: "string \<Rightarrow> nat list \<Rightarrow> nat \<Rightarrow> heap_world \<Rightarrow> (error + unit) \<times> heap_world" where
  "residue_loop_h cid [] lst w = (Inr (), w)"
| "residue_loop_h cid (ra # ras) lst w =
     (case residue_step cid ra lst w of
        (Inl e, w') \<Rightarrow> (Inl e, w')
      | (Inr u, w') \<Rightarrow> residue_loop_h cid ras lst w')"

text \<open>
  \<open>for residue in chain\<close> reads the chain's children, and \<open>chain.id\<close> its id;
  \<open>for chain in model\<close> and \<open>for model in structure\<close> read the children of an entity.
  The loop bodies write only to \<open>residues_info\<close> and to objects they have created, so
  the children are the ones read when a loop starts.
\<close>

fun chain_loop_h :: "nat list \<Rightarrow> nat \<Rightarrow> heap_world \<Rightarrow> (error + unit) \<times> heap_world" where
  "chain_loop_h [] lst w = (Inr (), w)"
| "chain_loop_h (ca # cas) lst w =
     (case deref w ca of
        Some (OChain cid ras) \<Rightarrow>
          (case residue_loop_h cid ras lst w of
             (Inl e, w') \<Rightarrow> (Inl e, w')
           | (Inr u, w') \<Rightarrow> chain_loop_h cas lst w')
      | _ \<Rightarrow> (Inl TypeError, w))"

fun model_loop_h :: "nat list \<Rightarrow> nat \<Rightarrow> heap_world \<Rightarrow> (error + unit) \<times> heap_world" where
  "model_loop_h [] lst w = (Inr (), w)"
| "model_loop_h (ma # mas) lst w =
     (case deref w ma of
        Some (OEntity cas) \<Rightarrow>
          (case chain_loop_h cas lst w of
             (Inl e, w') \<Rightarrow> (Inl e, w')
           | (Inr u, w') \<Rightarrow> model_loop_h mas lst w')
      | _ \<Rightarrow> (Inl TypeError, w))"

text \<open>
  The function. \<open>get_structure\<close> stands for \<open>PDBParser().get_structure("protein",
  pdb_file)\<close> of the external library: whatever it does to the files and to the heap, it
  returns the address of the structure or raises. The function returns the address of
  \<open>residues_info\<close>.
\<close>

definition get_alpha_carbon_info_heap ::
  "(string \<Rightarrow> heap_world \<Rightarrow> (error + nat) \<times> heap_world) \<Rightarrow> string \<Rightarrow> heap_world \<Rightarrow>
   (error + nat) \<times> heap_world"
where
  "get_alpha_carbon_info_heap get_structure pdb_file w =
     (case get_structure pdb_file w of
        (Inl e, w1) \<Rightarrow> (Inl e, w1)
      | (Inr s, w1) \<Rightarrow>
          (let (lst, w2) = alloc (OList []) w1
           in case deref w2 s of
                Some (OEntity mas) \<Rightarrow>
                  (case model_loop_h mas lst w2 of
                     (Inl e, w3) \<Rightarrow> (Inl e, w3)
                   | (Inr u, w3) \<Rightarrow> (Inr lst, w3))
              | _ \<Rightarrow> (Inl TypeError, w2)))"

text \<open>
  What a run from \<open>w\<close> to \<open>w'\<close> may have done if it only wrote to the object at \<open>lst\<close>
  and to new objects: the files are the same, no object is gone, and every other object
  of \<open>w\<close> is as it was.
\<close>

definition wrote_only :: "nat \<Rightarrow> heap_world \<Rightarrow> heap_world \<Rightarrow> bool" where
  "wrote_only lst w w' =
     (files w' = files w \<and> length (heap w) \<le> length (heap w') \<and>
      list_all (\<lambda>a. a = lst \<or> heap w' ! a = heap w ! a) [0..<length (heap w)])"

text \<open>
  The records of a result list that share nothing with the objects below address \<open>n\<close>:
  each entry is a dict created above \<open>n\<close> whose values are plain values or lists created
  above \<open>n\<close>.
\<close>

definition fresh_value :: "nat \<Rightarrow> pyval \<Rightarrow> bool" where
  "fresh_value n v = (case v of VRef a \<Rightarrow> n \<le> a | _ \<Rightarrow> True)"

definition fresh_record :: "nat \<Rightarrow> pyobj list \<Rightarrow> pyval \<Rightarrow> bool" where
  "fresh_record n h v =
     (case v of
        VRef d \<Rightarrow>
          n \<le> d \<and> d < length h \<and>
          (case h ! d of ODict kvs \<Rightarrow> list_all (\<lambda>kv. fresh_value n (snd kv)) kvs | _ \<Rightarrow> False)
      | _ \<Rightarrow> False)"

text \<open>
  The list at \<open>lst\<close> holds records that share nothing with the objects below \<open>n\<close>.
\<close>

definition returned_records :: "nat \<Rightarrow> nat \<Rightarrow> heap_world \<Rightarrow> bool" where
  "returned_records n lst w =
     (lst < length (heap w) \<and>
      (case heap w ! lst of OList vs \<Rightarrow> list_all (fresh_record n (heap w)) vs | _ \<Rightarrow> False))"

section \<open>Closed forms used to state the properties\<close>

text \<open>
  The contribution of position \<open>i\<close> to the two sums of \<open>label_smoothed_nll_loss\<close>,
  written with indices into the row-major data: the negated log-probability of the target
  class, and the negated sum of the log-probabilities over the classes; zero at a position
  whose target is the ignored index.
\<close>

definition nll_at :: "fl tensor \<Rightarrow> int tensor \<Rightarrow> int option \<Rightarrow> nat \<Rightarrow> fl" where
  "nll_at lprobs target ig i =
     (if ig = Some (data target ! i) then 0
      else - (data lprobs ! (i * last (shape lprobs) + nat (data target ! i))))"

definition smooth_at :: "fl tensor \<Rightarrow> int tensor \<Rightarrow> int option \<Rightarrow> nat \<Rightarrow> fl" where
  "smooth_at lprobs target ig i =
     (if ig = Some (data target ! i) then 0
      else - (\<Sum>j<last (shape lprobs). data lprobs ! (i * last (shape lprobs) + j)))"


text \<open>A tensor without an infinite or NaN entry.\<close>

fun is_fin :: "fl \<Rightarrow> bool" where
  "is_fin (Fin a) = True"
| "is_fin x = False"

definition finite_t :: "fl tensor \<Rightarrow> bool" where
  "finite_t t = list_all is_fin (data t)"

text \<open>A mask that allows no position.\<close>

definition all_false :: "bool tensor \<Rightarrow> bool" where
  "all_false m = list_all (\<lambda>b. \<not> b) (data m)"

text \<open>The prefix \<open>compute\<close> puts before its log keys.\<close>

definition key_prefix :: "string \<Rightarrow> string" where
  "key_prefix k = (if length k > 0 then k @ ''/'' else k)"

text \<open>
  The result of \<open>compute\<close> for one item of the scores dict, with the three subscripts
  the loop evaluates first, and the results for all items in iteration order.
\<close>

definition key_result ::
  "loss_cfg \<Rightarrow> bool \<Rightarrow> bool \<Rightarrow> (string \<times> int tensor) list \<Rightarrow>
   (string \<times> bool tensor option) list option \<Rightarrow> (string \<times> fl tensor option) list option \<Rightarrow>
   string \<times> fl tensor \<Rightarrow> error + (fl \<times> fl \<times> logging)"
where
  "key_result self cal watch target_dict label_mask_dict weights_dict item =
     bindE (getitem target_dict (fst item)) (\<lambda>target.
     bindE (getitem_opt label_mask_dict (fst item)) (\<lambda>label_mask.
     bindE (getitem_opt weights_dict (fst item)) (\<lambda>weights.
     compute self cal watch (snd item) target label_mask weights (fst item))))"

fun collect :: "('a \<Rightarrow> error + 'b) \<Rightarrow> 'a list \<Rightarrow> error + 'b list" where
  "collect f [] = Inr []"
| "collect f (x # xs) = bindE (f x) (\<lambda>y. bindE (collect f xs) (\<lambda>ys. Inr (y # ys)))"

text \<open>The sum of floating-point scalars, added to \<open>0\<close> in order.\<close>

definition fl_sum :: "fl list \<Rightarrow> fl" where
  "fl_sum xs = foldl fl_add (Fin 0) xs"

text \<open>
  What it means that a returned loss and its log are the weighted sums: the
  per-position losses \<open>L\<close> and nll losses \<open>N\<close> are multiplied by the weights, with the
  library's broadcasting product, before the full-sequence means and before the masked
  means are taken.
\<close>

definition weighted_result ::
  "loss_cfg \<Rightarrow> fl tensor \<Rightarrow> int tensor \<Rightarrow> bool tensor option \<Rightarrow> fl tensor \<Rightarrow> fl \<Rightarrow>
   logging \<Rightarrow> bool"
where
  "weighted_result self scores target label_mask w loss out =
     (case label_smoothed_nll_loss (log_softmax scores) target (label_smoothing self)
             (ignore_index self) False of
        Inl e \<Rightarrow> False
      | Inr (L, N) \<Rightarrow>
          (case (mul_t L w, mul_t N w) of
             (Inr L1, Inr N1) \<Rightarrow>
               out ''fullseq_loss'' =
                 Some (LFl (fl_div (tsum L1) (num_val (nonpad_count self target)))) \<and>
               out ''fullseq_nll_loss'' =
                 Some (LFl (fl_div (tsum N1) (num_val (nonpad_count self target)))) \<and>
               (case label_mask of
                  None \<Rightarrow>
                    loss = fl_div (tsum L1) (num_val (nonpad_count self target)) \<and>
                    out ''nll_loss'' =
                      Some (LFl (fl_div (tsum N1) (num_val (nonpad_count self target))))
                | Some m \<Rightarrow>
                    (case (mul_t L1 (to_float m), mul_t N1 (to_float m)) of
                       (Inr l, Inr n) \<Rightarrow>
                         loss = fl_div (tsum l) (count_true m) \<and>
                         out ''nll_loss'' = Some (LFl (fl_div (tsum n) (count_true m)))
                     | _ \<Rightarrow> False))
           | _ \<Rightarrow> False))"

section \<open>Arithmetic of the float values\<close>

lemma numeral_fl: "(numeral n :: fl) = Fin (numeral n)"
proof (induction n)
  case One
  then show ?case by (simp add: one_fl_def)
next
  case (Bit0 n)
  have "(numeral (num.Bit0 n) :: fl) = numeral n + numeral n" by (rule numeral_Bit0)
  also have "\<dots> = Fin (numeral n) + Fin (numeral n)" by (simp only: Bit0)
  also have "\<dots> = Fin (numeral (num.Bit0 n))" by (simp add: plus_fl_def numeral_Bit0)
  finally show ?case .
next
  case (Bit1 n)
  have "(numeral (num.Bit1 n) :: fl) = numeral n + numeral n + 1" by (rule numeral_Bit1)
  also have "\<dots> = Fin (numeral n) + Fin (numeral n) + Fin 1"
    by (simp only: Bit1 one_fl_def)
  also have "\<dots> = Fin (numeral (num.Bit1 n))" by (simp add: plus_fl_def numeral_Bit1)
  finally show ?case .
qed

lemmas fl_arith = zero_fl_def one_fl_def plus_fl_def times_fl_def uminus_fl_def numeral_fl

lemma fl_one_mult: "Fin 1 * (x :: fl) = x"
  by (cases x) (simp_all add: fl_arith)

lemma fl_zero_mult_Fin: "Fin 0 * Fin a = 0"
  by (simp add: fl_arith)

lemma fl_add_zero_right: "(x :: fl) + Fin 0 = x"
  by (cases x) (simp_all add: fl_arith)

section \<open>Row-major positions\<close>

lemma ravel_unravel: "p < prod_list s \<Longrightarrow> ravel s (unravel s p) = p"
proof (induction s arbitrary: p)
  case Nil
  then show ?case by simp
next
  case (Cons d ds)
  have pos: "0 < prod_list ds"
    using Cons.prems by (cases "prod_list ds = 0") auto
  then have "p mod prod_list ds < prod_list ds" by simp
  then have "ravel ds (unravel ds (p mod prod_list ds)) = p mod prod_list ds"
    by (rule Cons.IH)
  then show ?case by simp
qed

lemma unravel_length [simp]: "length (unravel s p) = length s"
  by (induction s arbitrary: p) simp_all

lemma unravel_bound: "p < prod_list s \<Longrightarrow> list_all2 (\<lambda>j d. j < d) (unravel s p) s"
proof (induction s arbitrary: p)
  case Nil
  then show ?case by simp
next
  case (Cons d ds)
  have pos: "0 < prod_list ds"
    using Cons.prems by (cases "prod_list ds = 0") auto
  have "p div prod_list ds < d"
    using Cons.prems pos by (simp add: less_mult_imp_div_less mult.commute)
  moreover have "list_all2 (\<lambda>j d. j < d) (unravel ds (p mod prod_list ds)) ds"
    using pos by (intro Cons.IH) simp
  ultimately show ?case by simp
qed

lemma ravel_bound: "list_all2 (\<lambda>j d. j < d) js s \<Longrightarrow> s \<noteq> [] \<Longrightarrow> ravel s js < prod_list s"
proof (induction s arbitrary: js)
  case Nil
  then show ?case by simp
next
  case (Cons d ds)
  then obtain j js' where js: "js = j # js'" and j: "j < d"
    and rest: "list_all2 (\<lambda>j d. j < d) js' ds"
    by (cases js) auto
  show ?case
  proof (cases "ds = []")
    case True
    then show ?thesis using js j rest by simp
  next
    case False
    then have r: "ravel ds js' < prod_list ds" using Cons.IH rest by blast
    have "j * prod_list ds + ravel ds js' < j * prod_list ds + prod_list ds" using r by simp
    also have "\<dots> = Suc j * prod_list ds" by simp
    also have "\<dots> \<le> d * prod_list ds" using j by (intro mult_le_mono1) simp
    finally show ?thesis using js by simp
  qed
qed

lemma pad_shape_same [simp]: "pad_shape (length s) s = s"
  by (simp add: pad_shape_def)

lemma map2_clamp_id:
  "list_all2 (\<lambda>j d. j < d) js s \<Longrightarrow>
   map2 (\<lambda>d j. if d = 1 then 0 else j) s js = (js :: nat list)"
proof (induction js s rule: list_all2_induct)
  case Nil
  then show ?case by simp
next
  case (Cons j js d ds)
  then show ?case by auto
qed

lemma bidx_same: "p < prod_list s \<Longrightarrow> bidx s s p = p"
  unfolding bidx_def Let_def pad_shape_same
  by (simp only: map2_clamp_id[OF unravel_bound] ravel_unravel)

lemma bshape_rev_same: "bshape_rev s s = Some s"
  by (induction s) simp_all

lemma broadcast_shapes_same [simp]: "broadcast_shapes s s = Some s"
  by (simp add: broadcast_shapes_def bshape_rev_same)

lemma broadcastable_to_same [simp]: "broadcastable_to s s"
  by (simp add: broadcastable_to_def list_all2_same)

lemma binop_same_shape:
  assumes "shape a = s" and "shape b = s"
  shows "binop f a b = Inr (Tensor s (map (\<lambda>p. f (data a ! p) (data b ! p)) [0..<prod_list s]))"
  using assms by (simp add: binop_def bidx_same cong: map_cong)

lemma masked_fill_same_shape:
  assumes "shape m = shape t"
  shows "masked_fill t m v =
     Inr (Tensor (shape t) (map (\<lambda>p. if data m ! p then v else data t ! p)
        [0..<prod_list (shape t)]))"
  using assms by (simp add: masked_fill_def bidx_same cong: map_cong)

section \<open>Rows of a row-major list\<close>

lemma rows_of_length [simp]: "length (rows_of n c xs) = n"
  by (simp add: rows_of_def)

lemma rows_of_nth: "i < n \<Longrightarrow> rows_of n c xs ! i = take c (drop (i * c) xs)"
  by (simp add: rows_of_def)

lemma row_le: "i < n \<Longrightarrow> i * c + c \<le> n * (c::nat)"
proof -
  assume "i < n"
  have "i * c + c = Suc i * c" by simp
  also have "\<dots> \<le> n * c" using \<open>i < n\<close> by (intro mult_le_mono1) simp
  finally show ?thesis .
qed

lemma rows_of_row_length:
  assumes "length xs = n * c" "i < n"
  shows "length (rows_of n c xs ! i) = c"
  using assms row_le[OF assms(2), of c] by (simp add: rows_of_nth)

lemma rows_of_sum:
  fixes xs :: "'a::comm_monoid_add list"
  assumes "length xs = n * c" "i < n"
  shows "sum_list (rows_of n c xs ! i) = (\<Sum>j<c. xs ! (i * c + j))"
proof -
  have le: "i * c + c \<le> n * c" using assms(2) by (rule row_le)
  have len: "length (take c (drop (i * c) xs)) = c" using assms le by simp
  have "sum_list (take c (drop (i * c) xs)) = (\<Sum>j = 0..<c. take c (drop (i * c) xs) ! j)"
    using sum_list_sum_nth[of "take c (drop (i * c) xs)"] len by simp
  also have "\<dots> = (\<Sum>j = 0..<c. xs ! (i * c + j))"
    using assms le by (intro sum.cong) auto
  finally show ?thesis using assms by (simp add: rows_of_nth atLeast0LessThan)
qed

section \<open>The closed form of label_smoothed_nll_loss\<close>

lemma gather_last_closed:
  assumes "shape lprobs = sh @ [C]" "shape target = sh @ [1]"
    and "\<forall>t\<in>set (data target). 0 \<le> t \<and> t < int C"
  shows "gather_last lprobs target =
     Inr (Tensor (sh @ [1])
       (map (\<lambda>i. data lprobs ! (i * C + nat (data target ! i))) [0..<prod_list sh]))"
proof (cases "prod_list sh = 0")
  case True
  then show ?thesis using assms(1,2) by (simp add: gather_last_def)
next
  case False
  have all: "list_all (\<lambda>i. 0 \<le> i \<and> i < int C) (data target)"
    using assms(3) by (simp add: list_all_iff)
  have "map (\<lambda>p. data lprobs ! (ravel sh (unravel sh (p div 1)) * C + nat (data target ! p)))
          [0..<prod_list sh] =
        map (\<lambda>i. data lprobs ! (i * C + nat (data target ! i))) [0..<prod_list sh]"
    by (rule map_cong[OF refl]) (simp add: ravel_unravel)
  then show ?thesis
    using False all assms(1,2)
    by (simp add: gather_last_def nonempty_shape_def list_all2_same)
qed

lemma sum_last_keepdim_closed:
  assumes "shape lprobs = sh @ [C]" "length (data lprobs) = prod_list sh * C"
  shows "sum_last_keepdim lprobs =
     Tensor (sh @ [1]) (map (\<lambda>i. \<Sum>j<C. data lprobs ! (i * C + j)) [0..<prod_list sh])"
proof -
  have "map sum_list (rows_of (prod_list sh) C (data lprobs)) =
        map (\<lambda>i. sum_list (rows_of (prod_list sh) C (data lprobs) ! i)) [0..<prod_list sh]"
    by (rule nth_equalityI) auto
  also have "\<dots> = map (\<lambda>i. \<Sum>j<C. data lprobs ! (i * C + j)) [0..<prod_list sh]"
    using rows_of_sum[OF assms(2)] by (intro map_cong[OF refl]) simp
  finally show ?thesis using assms(1) by (simp add: sum_last_keepdim_def)
qed

lemma masked_fill_upt:
  assumes "length ts = n" and "prod_list s = n"
  shows "masked_fill (Tensor s (map g [0..<n])) (eq_scalar (Tensor s ts) v) (0::fl) =
     Inr (Tensor s (map (\<lambda>i. if ts ! i = v then 0 else g i) [0..<n]))"
  using assms
  by (simp add: masked_fill_same_shape eq_scalar_def cong: map_cong)

lemma add_scale_upt:
  assumes "prod_list s = n"
  shows "add_t (scale a (Tensor s (map g [0..<n]))) (scale b (Tensor s (map h [0..<n]))) =
     Inr (Tensor s (map (\<lambda>i. Fin a * g i + Fin b * h i) [0..<n]))"
  using assms
  by (simp add: add_t_def scale_def binop_same_shape cong: map_cong)

lemma lsnl_closed:
  assumes sh: "shape lprobs = sh @ [C]" "shape target = sh"
    and C: "C \<noteq> 1"
    and wf: "wf_tensor lprobs" "wf_tensor target"
    and rng: "\<forall>t\<in>set (data target). 0 \<le> t \<and> t < int C"
  shows "label_smoothed_nll_loss lprobs target eps ig reduce =
     (let e = eps / real_of_int (int C - 1);
          nl = map (nll_at lprobs target ig) [0..<prod_list sh];
          sm = map (smooth_at lprobs target ig) [0..<prod_list sh]
      in if reduce
         then Inr (Tensor [] [Fin (1 - eps - e) * sum_list nl + Fin e * sum_list sm],
                   Tensor [] [sum_list nl])
         else Inr (Tensor sh (map (\<lambda>i. Fin (1 - eps - e) * nll_at lprobs target ig i +
                                      Fin e * smooth_at lprobs target ig i) [0..<prod_list sh]),
                   Tensor sh nl))"
proof -
  let ?P = "prod_list sh"
  have l1: "length (data lprobs) = ?P * C" using wf(1) sh(1) by (simp add: wf_tensor_def)
  have l2: "length (data target) = ?P" using wf(2) sh(2) by (simp add: wf_tensor_def)
  have flag: "(int (ndim target) = int (ndim lprobs) - 1) = True"
    using sh by (simp add: ndim_def)
  have un: "unsqueeze_last target = Tensor (sh @ [1]) (data target)"
    using sh by (simp add: unsqueeze_last_def)
  have g: "gather_last lprobs (Tensor (sh @ [1]) (data target)) =
     Inr (Tensor (sh @ [1])
       (map (\<lambda>i. data lprobs ! (i * C + nat (data target ! i))) [0..<?P]))"
    using gather_last_closed[of lprobs sh C "Tensor (sh @ [1]) (data target)"] sh rng
    by simp
  have s: "sum_last_keepdim lprobs =
     Tensor (sh @ [1]) (map (\<lambda>i. \<Sum>j<C. data lprobs ! (i * C + j)) [0..<?P])"
    using sum_last_keepdim_closed[OF sh(1) l1] .
  have last: "last (shape lprobs) = C" using sh by simp
  have sz: "size_last lprobs = Inr C" using sh by (simp add: size_last_def)
  have sq: "\<And>xs::fl list. squeeze_last (Tensor (sh @ [1]) xs) = Tensor sh xs"
    by (simp add: squeeze_last_def)
  have ng: "\<And>f. neg (Tensor (sh @ [1]) (map f [0..<?P])) =
                Tensor (sh @ [1]) (map (\<lambda>i. - f i) [0..<?P])"
    by (simp add: neg_def)
  have p1: "prod_list (sh @ [1]) = ?P" by simp
  have na: "nll_at lprobs target ig =
      (\<lambda>i. if ig = Some (data target ! i) then 0
           else - (data lprobs ! (i * C + nat (data target ! i))))"
    by (simp add: fun_eq_iff nll_at_def last)
  have sa: "smooth_at lprobs target ig =
      (\<lambda>i. if ig = Some (data target ! i) then 0
           else - (\<Sum>j<C. data lprobs ! (i * C + j)))"
    by (simp add: fun_eq_iff smooth_at_def last)
  have msk: "(case ig of
        None \<Rightarrow> Inr (Tensor (sh @ [1])
                       (map (\<lambda>i. - (data lprobs ! (i * C + nat (data target ! i)))) [0..<?P]),
                     Tensor (sh @ [1])
                       (map (\<lambda>i. - (\<Sum>j<C. data lprobs ! (i * C + j))) [0..<?P]))
      | Some v \<Rightarrow>
          bindE (masked_fill (Tensor (sh @ [1])
                   (map (\<lambda>i. - (data lprobs ! (i * C + nat (data target ! i)))) [0..<?P]))
                   (eq_scalar (Tensor (sh @ [1]) (data target)) v) 0) (\<lambda>n.
          bindE (masked_fill (Tensor (sh @ [1])
                   (map (\<lambda>i. - (\<Sum>j<C. data lprobs ! (i * C + j))) [0..<?P]))
                   (eq_scalar (Tensor (sh @ [1]) (data target)) v) 0) (\<lambda>s. Inr (n, s))))
      = Inr (Tensor (sh @ [1]) (map (nll_at lprobs target ig) [0..<?P]),
             Tensor (sh @ [1]) (map (smooth_at lprobs target ig) [0..<?P]))"
  proof (cases ig)
    case None
    show ?thesis unfolding None by (simp add: nll_at_def smooth_at_def last)
  next
    case (Some v)
    have e: "\<And>x. (Some v = Some x) = (x = v)" by auto
    show ?thesis
      unfolding Some option.case masked_fill_upt[OF l2 p1] bindE.simps
      by (auto simp add: nll_at_def smooth_at_def last)
  qed
  have s1: "prod_list [] = (1::nat)" by simp
  show ?thesis
    unfolding label_smoothed_nll_loss_def flag un Let_def if_True
    apply (simp only: g bindE.simps s ng msk sq sz prod.case)
    using C
    apply (cases reduce)
     apply (simp_all add: sum_all_def add_scale_upt)
    apply (simp add: add_t_def scale_def binop_same_shape)
    done
qed

lemma sum_list_upt_lessThan:
  "sum_list (map f [0..<n]) = (\<Sum>i<n. (f i :: 'a::comm_monoid_add))"
  by (simp add: interv_sum_list_conv_sum_set_nat atLeast0LessThan)

lemmas tensor_eval =
  label_smoothed_nll_loss_def gather_last_def nonempty_shape_def rows_of_def unsqueeze_last_def
  squeeze_last_def sum_last_keepdim_def neg_def eq_scalar_def masked_fill_def sum_all_def
  scale_def add_t_def mul_t_def binop_def broadcast_shapes_def broadcastable_to_def bidx_def
  pad_shape_def expand_to_def size_last_def ndim_def numel_def tsum_def to_float_def
  count_true_def count_ne_def log_softmax_def log_softmax_row_def shape_first_last_def
  bool_index_def reshape_rows_def flatten_def chunk2_def new_ones_def nonpad_count_def
  apply_weights_def watch_t1_t2_def constant_diff_loss_def fdiv_def fl_arith Let_def
  upt_rec[of _ "numeral _"] upt_rec[of _ "Suc _"]

section \<open>Properties of label_smoothed_nll_loss\<close>

text \<open>
  C1. Without an ignored index and with \<open>reduce\<close>, for log-probabilities over
  \<open>C \<ge> 2\<close> classes and targets of the matching shape, the function returns the pair
  \<open>(loss, nll_loss)\<close>: \<open>nll_loss\<close> is the sum over the positions of the negated
  log-probability of the target class, and \<open>loss\<close> is
  \<open>(1 - epsilon - epsilon/(C-1)) * nll_loss + epsilon/(C-1) * smooth_loss\<close>, where
  \<open>smooth_loss\<close> sums the negated row sums.
\<close>

theorem label_smoothed_nll_loss_reduce:
  assumes "shape lprobs = sh @ [C]" and "shape target = sh" and "2 \<le> C"
    and "wf_tensor lprobs" and "wf_tensor target"
    and "\<forall>t\<in>set (data target). 0 \<le> t \<and> t < int C"
  shows "label_smoothed_nll_loss lprobs target epsilon None True =
     Inr (Tensor []
            [Fin (1 - epsilon - epsilon / (real C - 1)) *
               (\<Sum>i<prod_list sh. - (data lprobs ! (i * C + nat (data target ! i)))) +
             Fin (epsilon / (real C - 1)) *
               (\<Sum>i<prod_list sh. - (\<Sum>j<C. data lprobs ! (i * C + j)))],
          Tensor [] [\<Sum>i<prod_list sh. - (data lprobs ! (i * C + nat (data target ! i)))])"
proof -
  have C: "C \<noteq> 1" using assms(3) by simp
  have last: "last (shape lprobs) = C" using assms(1) by simp
  have rc: "real_of_int (int C - 1) = real C - 1" by simp
  show ?thesis
    unfolding lsnl_closed[OF assms(1,2) C assms(4,5,6)] Let_def if_True sum_list_upt_lessThan rc
    by (simp add: nll_at_def smooth_at_def last)
qed

theorem label_smoothed_nll_loss_reduce_witness:
  "label_smoothed_nll_loss (Tensor [2, 2] [-1, -2, -3, -4]) (Tensor [2] [0, 1]) (1 / 10) None True
     = Inr (Tensor [] [5], Tensor [] [5])"
  using label_smoothed_nll_loss_reduce[of "Tensor [2, 2] [-1, -2, -3, -4]" "[2]" 2
      "Tensor [2] [0, 1]" "1 / 10"]
  by (simp add: wf_tensor_def lessThan_Suc eval_nat_numeral fl_arith)





section \<open>Properties of the loss classes\<close>

lemma bindE_Inr_iff: "(bindE m f = Inr y) = (\<exists>x. m = Inr x \<and> f x = Inr y)"
  by (cases m) auto

lemma bindE_Inl_iff: "(bindE m f = Inl e) = (m = Inl e \<or> (\<exists>x. m = Inr x \<and> f x = Inl e))"
  by (cases m) auto

text \<open>
  C4. \<open>CrossEntropyLoss.forward\<close> evaluates \<open>target.ne(self.ignore_index)\<close> before it
  tests \<open>self.ignore_index is not None\<close>: without an ignored index the call raises, so
  the branch that would take the number of selected targets as the sample size is never
  reached.
\<close>

theorem CrossEntropyLoss_forward_ignore_index_None:
  "CrossEntropyLoss_forward \<lparr>ignore_index = None, label_smoothing = eps\<rparr> scores target msk =
     Inl TypeError"
  by (simp add: CrossEntropyLoss_forward_def)

text \<open>
  With an ignored index the method returns the summed loss over the sample size, which is
  the number of selected, flattened targets that differ from the ignored index, and the
  logged perplexity is the exponential of the summed nll loss over the sample size.
\<close>

lemma CrossEntropyLoss_forward_average:
  assumes "ignore_index self = Some ig"
    and "CrossEntropyLoss_forward self scores target msk = Inr (loss_avg, out)"
  shows "\<exists>scores1 target1 scores2 loss nll_loss.
      (case msk of
         None \<Rightarrow> scores1 = scores \<and> target1 = target
       | Some m \<Rightarrow> bool_index scores m = Inr scores1 \<and> bool_index target m = Inr target1) \<and>
      reshape_rows scores1 (last (shape scores)) = Inr scores2 \<and>
      label_smoothed_nll_loss (log_softmax scores2) (flatten target1) (label_smoothing self)
        (Some ig) True = Inr (loss, nll_loss) \<and>
      loss_avg = fl_div (tsum loss) (count_ne (flatten target1) ig) \<and>
      out ''sample_size'' = Some (LNum (TNum (count_ne (flatten target1) ig))) \<and>
      out ''ppl'' = Some (LFl (fl_exp (fl_div (tsum nll_loss) (count_ne (flatten target1) ig))))"
  using assms unfolding CrossEntropyLoss_forward_def Let_def
  by (auto simp add: bindE_Inr_iff shape_first_last_def split: option.splits if_splits)

lemma Coord2Seq_weighted:
  assumes "Coord2SeqCrossEntropyLoss_forward self scores target label_mask coord_mask (Some w)
             = Inr (loss, out)"
  shows "weighted_result self scores target
           (case label_mask of None \<Rightarrow> coord_mask | Some m \<Rightarrow> Some m) w loss out"
  using assms unfolding Coord2SeqCrossEntropyLoss_forward_def Let_def weighted_result_def
  by (cases label_mask; cases coord_mask)
     (auto simp add: bindE_Inr_iff apply_weights_def split: if_splits)

lemma RDM_weighted:
  assumes "RDMCrossEntropyLoss_forward self scores target label_mask (Some w) cal watch
             = Inr (loss, out)"
  shows "weighted_result self scores target label_mask w loss out"
  using assms unfolding RDMCrossEntropyLoss_forward_def Let_def weighted_result_def
  by (cases label_mask; cases cal; cases watch)
     (auto simp add: bindE_Inr_iff apply_weights_def split: if_splits)

text \<open>
  C5. Whenever \<open>Coord2SeqCrossEntropyLoss.forward\<close> or \<open>RDMCrossEntropyLoss.forward\<close>
  returns on weights that are not \<open>None\<close>, the per-position loss and nll loss were
  multiplied by the weights before any sum or division: the logged full-sequence losses
  and the returned (masked) loss are sums of the weighted values. The product is the
  library's: weights of another shape are broadcast, and for weights of the shape of the
  losses it is the product entry by entry.
\<close>

theorem weights_multiply_before_reduction:
  "(Coord2SeqCrossEntropyLoss_forward self scores target label_mask coord_mask (Some w)
      = Inr (loss, out) \<longrightarrow>
    weighted_result self scores target
      (case label_mask of None \<Rightarrow> coord_mask | Some m \<Rightarrow> Some m) w loss out) \<and>
   (RDMCrossEntropyLoss_forward self scores target label_mask (Some w) cal watch
      = Inr (loss', out') \<longrightarrow>
    weighted_result self scores target label_mask w loss' out') \<and>
   (shape w = shape L \<longrightarrow>
    mul_t L w =
      Inr (Tensor (shape L) (map (\<lambda>i. data L ! i * data w ! i) [0..<prod_list (shape L)])))"
  using Coord2Seq_weighted RDM_weighted binop_same_shape[of L "shape L" w "(*)"]
  unfolding mul_t_def by blast

theorem weights_multiply_before_reduction_witness:
  "\<exists>loss out loss' out'.
     Coord2SeqCrossEntropyLoss_forward \<lparr>ignore_index = Some 0, label_smoothing = 0\<rparr>
       (Tensor [2, 1, 2] [0, 0, 0, 0]) (Tensor [2, 1] [1, 1])
       (Some (Tensor [2, 1] [True, False])) None (Some (Tensor [1, 1] [3]))
       = Inr (loss, out) \<and>
     loss = Fin (3 * ln 2) \<and>
     out ''fullseq_loss'' = Some (LFl (Fin (3 * ln 2))) \<and>
     weighted_result \<lparr>ignore_index = Some 0, label_smoothing = 0\<rparr>
       (Tensor [2, 1, 2] [0, 0, 0, 0]) (Tensor [2, 1] [1, 1])
       (Some (Tensor [2, 1] [True, False])) (Tensor [1, 1] [3]) loss out \<and>
     RDMCrossEntropyLoss_forward \<lparr>ignore_index = Some 0, label_smoothing = 0\<rparr>
       (Tensor [2, 1, 2] [0, 0, 0, 0]) (Tensor [2, 1] [1, 1])
       (Some (Tensor [2, 1] [True, False])) (Some (Tensor [2, 1] [2, 3])) False False
       = Inr (loss', out') \<and>
     loss' = Fin (2 * ln 2) \<and>
     weighted_result \<lparr>ignore_index = Some 0, label_smoothing = 0\<rparr>
       (Tensor [2, 1, 2] [0, 0, 0, 0]) (Tensor [2, 1] [1, 1])
       (Some (Tensor [2, 1] [True, False])) (Tensor [2, 1] [2, 3]) loss' out' \<and>
     mul_t (Tensor [2, 1] [5, 7]) (Tensor [2, 1] [2, 3]) = Inr (Tensor [2, 1] [10, 21])"
proof -
  let ?cfg = "\<lparr>ignore_index = Some 0, label_smoothing = 0\<rparr>"
  let ?S = "Tensor [2, 1, 2] [0, 0, 0, 0] :: fl tensor"
  let ?T = "Tensor [2, 1] [1, 1] :: int tensor"
  let ?M = "Tensor [2, 1] [True, False]"
  let ?V = "Tensor [1, 1] [3] :: fl tensor"
  let ?W = "Tensor [2, 1] [2, 3] :: fl tensor"
  have "\<exists>out. Coord2SeqCrossEntropyLoss_forward ?cfg ?S ?T (Some ?M) None (Some ?V)
           = Inr (Fin (3 * ln 2), out) \<and> out ''fullseq_loss'' = Some (LFl (Fin (3 * ln 2)))"
    by (simp add: Coord2SeqCrossEntropyLoss_forward_def tensor_eval)
  then obtain out where
    c: "Coord2SeqCrossEntropyLoss_forward ?cfg ?S ?T (Some ?M) None (Some ?V)
          = Inr (Fin (3 * ln 2), out)"
    and f: "out ''fullseq_loss'' = Some (LFl (Fin (3 * ln 2)))" by blast
  have "\<exists>out'. RDMCrossEntropyLoss_forward ?cfg ?S ?T (Some ?M) (Some ?W) False False
           = Inr (Fin (2 * ln 2), out')"
    by (simp add: RDMCrossEntropyLoss_forward_def tensor_eval)
  then obtain out' where
    r: "RDMCrossEntropyLoss_forward ?cfg ?S ?T (Some ?M) (Some ?W) False False
          = Inr (Fin (2 * ln 2), out')" ..
  from weights_multiply_before_reduction[of ?cfg ?S ?T "Some ?M" None ?V "Fin (3 * ln 2)" out]
    c
  have w1: "weighted_result ?cfg ?S ?T (Some ?M) ?V (Fin (3 * ln 2)) out" by simp
  from weights_multiply_before_reduction[of ?cfg ?S ?T "Some ?M" None ?W _ _
      False False "Fin (2 * ln 2)" out' "Tensor [2, 1] [5, 7]"] r
  have w2: "weighted_result ?cfg ?S ?T (Some ?M) ?W (Fin (2 * ln 2)) out'"
    and w3: "mul_t (Tensor [2, 1] [5, 7]) ?W = Inr (Tensor [2, 1] [10, 21])"
    by (simp_all add: fl_arith upt_rec[of _ "numeral _"] upt_rec[of _ "Suc _"])
  show ?thesis using c f r w1 w2 w3 by blast
qed

section \<open>Broadcast positions stay in range\<close>

lemma prod_list_pad_shape [simp]: "prod_list (pad_shape n s) = prod_list s"
  by (simp add: pad_shape_def)

lemma clamp_bound:
  "list_all2 (\<lambda>d e. d = e \<or> d = 1) ps t \<Longrightarrow> list_all2 (\<lambda>j e. j < e) js t \<Longrightarrow>
   list_all2 (\<lambda>j d. j < d) (map2 (\<lambda>d j. if d = 1 then 0 else j) ps js) (ps :: nat list)"
proof (induction ps t arbitrary: js rule: list_all2_induct)
  case Nil
  then show ?case by simp
next
  case (Cons d ps e t)
  from Cons.prems obtain j js' where js: "js = j # js'" and j: "j < e"
    and r: "list_all2 (\<lambda>j e. j < e) js' t"
    by (cases js) auto
  show ?case using Cons.hyps(1) Cons.IH[OF r] j by (auto simp add: js)
qed

lemma ravel_bound': "list_all2 (\<lambda>j d. j < d) js s \<Longrightarrow> ravel s js < prod_list s"
  by (cases "s = []") (simp_all add: ravel_bound)

lemma bidx_bound:
  assumes "broadcastable_to s t" and "p < prod_list t"
  shows "bidx s t p < prod_list s"
proof -
  let ?ps = "pad_shape (length t) s"
  have a: "list_all2 (\<lambda>d e. d = e \<or> d = 1) ?ps t"
    using assms(1) by (simp add: broadcastable_to_def)
  have "list_all2 (\<lambda>j d. j < d) (map2 (\<lambda>d j. if d = 1 then 0 else j) ?ps (unravel t p)) ?ps"
    using a unravel_bound[OF assms(2)] by (rule clamp_bound)
  then have "ravel ?ps (map2 (\<lambda>d j. if d = 1 then 0 else j) ?ps (unravel t p)) < prod_list ?ps"
    by (rule ravel_bound')
  then show ?thesis by (simp add: bidx_def Let_def)
qed

lemma list_all2_ones: "list_all2 (\<lambda>d e. d = e \<or> d = 1) (replicate (length ys) (1::nat)) ys"
  by (induction ys) simp_all

lemma bshape_rev_to:
  "bshape_rev xs ys = Some zs \<Longrightarrow>
   length xs \<le> length zs \<and> length ys \<le> length zs \<and>
   list_all2 (\<lambda>d e. d = e \<or> d = 1) (xs @ replicate (length zs - length xs) 1) zs \<and>
   list_all2 (\<lambda>d e. d = e \<or> d = 1) (ys @ replicate (length zs - length ys) 1) zs"
proof (induction xs ys arbitrary: zs rule: bshape_rev.induct)
  case (1 ys)
  then show ?case using list_all2_ones[of ys] by (auto simp add: list_all2_same)
next
  case (2 x xs)
  then show ?case using list_all2_ones[of "x # xs"] by (auto simp add: list_all2_same)
next
  case (3 x xs y ys)
  then show ?case by (auto split: if_splits simp add: Suc_diff_le)
qed

lemma broadcast_shapes_to:
  assumes "broadcast_shapes a b = Some s"
  shows "broadcastable_to a s \<and> broadcastable_to b s"
proof -
  from assms obtain zs where z: "bshape_rev (rev a) (rev b) = Some zs" and s: "s = rev zs"
    by (auto simp add: broadcast_shapes_def)
  from bshape_rev_to[OF z] have
    la: "length a \<le> length zs" and lb: "length b \<le> length zs"
    and a: "list_all2 (\<lambda>d e. d = e \<or> d = 1) (rev a @ replicate (length zs - length a) 1) zs"
    and b: "list_all2 (\<lambda>d e. d = e \<or> d = 1) (rev b @ replicate (length zs - length b) 1) zs"
    by simp_all
  have "list_all2 (\<lambda>d e. d = e \<or> d = 1) (rev (rev a @ replicate (length zs - length a) 1)) (rev zs)"
    using a by (simp only: list_all2_rev)
  moreover have "list_all2 (\<lambda>d e. d = e \<or> d = 1) (rev (rev b @ replicate (length zs - length b) 1)) (rev zs)"
    using b by (simp only: list_all2_rev)
  ultimately show ?thesis using la lb by (simp add: broadcastable_to_def pad_shape_def s)
qed

lemma binop_Inr:
  assumes "binop f a b = Inr c"
  shows "broadcastable_to (shape a) (shape c) \<and> broadcastable_to (shape b) (shape c) \<and>
         data c = map (\<lambda>p. f (data a ! bidx (shape a) (shape c) p)
                            (data b ! bidx (shape b) (shape c) p)) [0..<prod_list (shape c)]"
  using assms broadcast_shapes_to[of "shape a" "shape b"]
  by (auto simp add: binop_def split: option.splits)

lemma binop_wf: "binop f a b = Inr c \<Longrightarrow> wf_tensor c"
  by (auto simp add: binop_def wf_tensor_def split: option.splits)

section \<open>Products with a mask that allows no position\<close>

lemma fl_mult_zero_cases: "(x :: fl) * 0 = 0 \<or> x * 0 = NaN"
  by (cases x) (simp_all add: fl_arith)

lemma fl_mult_zero_Fin: "Fin a * (0 :: fl) = 0"
  by (simp add: fl_arith)

lemma sum_list_zero_or_NaN:
  "\<forall>y\<in>set ys. y = (0 :: fl) \<or> y = NaN \<Longrightarrow> sum_list ys = 0 \<or> sum_list ys = NaN"
proof (induction ys)
  case Nil
  then show ?case by simp
next
  case (Cons y ys)
  then have "sum_list ys = 0 \<or> sum_list ys = NaN" by simp
  moreover have "y = 0 \<or> y = NaN" using Cons.prems by simp
  ultimately show ?case by (auto simp add: fl_arith)
qed

lemma sum_list_fl_zeros: "\<forall>y\<in>set ys. y = (0 :: fl) \<Longrightarrow> sum_list ys = 0"
  by (induction ys) auto

lemma to_float_all_false: "all_false m \<Longrightarrow> \<forall>y\<in>set (data (to_float m)). y = 0"
  by (auto simp add: all_false_def to_float_def list_all_iff)

lemma wf_to_float [simp]: "wf_tensor (to_float m) = wf_tensor m"
  by (simp add: wf_tensor_def to_float_def)

lemma mul_t_zero_entries:
  assumes m: "mul_t a b = Inr c" and wf: "wf_tensor b" and z: "\<forall>y\<in>set (data b). y = 0"
  shows "\<forall>y\<in>set (data c). y = 0 \<or> y = NaN"
proof -
  from binop_Inr[OF m[unfolded mul_t_def]] have
    bb: "broadcastable_to (shape b) (shape c)"
    and d: "data c = map (\<lambda>p. data a ! bidx (shape a) (shape c) p *
                              data b ! bidx (shape b) (shape c) p) [0..<prod_list (shape c)]"
    by simp_all
  have "data b ! bidx (shape b) (shape c) p = 0" if "p < prod_list (shape c)" for p
  proof -
    have "bidx (shape b) (shape c) p < length (data b)"
      using bidx_bound[OF bb that] wf by (simp add: wf_tensor_def)
    then show ?thesis using z by simp
  qed
  then show ?thesis unfolding d using fl_mult_zero_cases by auto
qed

lemma mul_t_zero_sum:
  assumes "mul_t a b = Inr c" and "wf_tensor b" and "\<forall>y\<in>set (data b). y = 0"
  shows "tsum c = 0 \<or> tsum c = NaN"
  unfolding tsum_def by (rule sum_list_zero_or_NaN) (rule mul_t_zero_entries[OF assms])

lemma finite_t_nth: "finite_t t \<Longrightarrow> i < length (data t) \<Longrightarrow> \<exists>a. data t ! i = Fin a"
  by (cases "data t ! i") (auto simp add: finite_t_def list_all_length)

lemma mul_t_zero_sum_finite:
  assumes m: "mul_t a b = Inr c" and wf: "wf_tensor b" and z: "\<forall>y\<in>set (data b). y = 0"
    and wa: "wf_tensor a" and fa: "finite_t a"
  shows "tsum c = 0"
proof -
  from binop_Inr[OF m[unfolded mul_t_def]] have
    ba: "broadcastable_to (shape a) (shape c)"
    and bb: "broadcastable_to (shape b) (shape c)"
    and d: "data c = map (\<lambda>p. data a ! bidx (shape a) (shape c) p *
                              data b ! bidx (shape b) (shape c) p) [0..<prod_list (shape c)]"
    by simp_all
  have "data a ! bidx (shape a) (shape c) p * data b ! bidx (shape b) (shape c) p = 0"
    if "p < prod_list (shape c)" for p
  proof -
    have "bidx (shape b) (shape c) p < length (data b)"
      using bidx_bound[OF bb that] wf by (simp add: wf_tensor_def)
    then have b0: "data b ! bidx (shape b) (shape c) p = 0" using z by simp
    have "bidx (shape a) (shape c) p < length (data a)"
      using bidx_bound[OF ba that] wa by (simp add: wf_tensor_def)
    from finite_t_nth[OF fa this] obtain x where "data a ! bidx (shape a) (shape c) p = Fin x" ..
    then show ?thesis using b0 by (simp add: fl_mult_zero_Fin)
  qed
  then show ?thesis unfolding tsum_def d by (intro sum_list_fl_zeros) auto
qed

lemma expand_to_zeros:
  assumes "expand_to t sh = Inr t'" and "wf_tensor t" and "\<forall>y\<in>set (data t). y = (0::fl)"
  shows "wf_tensor t' \<and> (\<forall>y\<in>set (data t'). y = 0)"
proof -
  from assms(1) have b: "broadcastable_to (shape t) sh"
    and t': "t' = Tensor sh (map (\<lambda>p. data t ! bidx (shape t) sh p) [0..<prod_list sh])"
    by (auto simp add: expand_to_def split: if_splits)
  have "data t ! bidx (shape t) sh p = 0" if "p < prod_list sh" for p
  proof -
    have "bidx (shape t) sh p < length (data t)"
      using bidx_bound[OF b that] assms(2) by (simp add: wf_tensor_def)
    then show ?thesis using assms(3) by simp
  qed
  then show ?thesis by (auto simp add: t' wf_tensor_def)
qed

lemma fl_div_zero_NaN: "x = 0 \<or> x = NaN \<Longrightarrow> fl_div x 0 = NaN"
  by (auto simp add: fl_arith fdiv_def)

lemma count_true_all_false: "all_false m \<Longrightarrow> count_true m = 0"
  by (simp add: all_false_def count_true_def list_all_iff filter_empty_conv)

lemma wf_unsqueeze_last [simp]: "wf_tensor (unsqueeze_last t) = wf_tensor t"
  by (simp add: wf_tensor_def unsqueeze_last_def)

lemma data_unsqueeze_last [simp]: "data (unsqueeze_last t) = data t"
  by (simp add: unsqueeze_last_def)

lemma fl_div_Fin_pos: "d \<noteq> 0 \<Longrightarrow> fdiv x d = Fin (x / d)"
  by (simp add: fdiv_def)

lemma compute_Some_elim:
  assumes "compute self cal watch scores target (Some m) weights key = Inr (loss, nll_loss, out)"
  obtains L0 N0 L1 N1 lm l n where
    "label_smoothed_nll_loss (log_softmax scores) target (label_smoothing self)
       (ignore_index self) False = Inr (L0, N0)"
    "apply_weights weights L0 N0 = Inr (L1, N1)"
    "(if int (ndim (to_float m)) = int (ndim L1) - 1
      then expand_to (unsqueeze_last (to_float m)) (shape L1) else Inr (to_float m)) = Inr lm"
    "mul_t L1 lm = Inr l" "mul_t N1 lm = Inr n"
    "loss = fl_div (tsum l) (max 1 (count_true m))"
    "nll_loss = fl_div (tsum n) (max 1 (count_true m))"
    "out (key_prefix key @ ''sample_size'') =
       Some (LNum (if 1 < count_true m then TNum (count_true m) else PyInt 1))"
  using assms unfolding compute_def Let_def key_prefix_def
  apply (cases cal; cases watch; cases "1 < count_true m")
  apply (auto simp add: bindE_Inr_iff max_def)
  done

lemma compute_guarded:
  assumes "compute self cal watch scores target (Some m) weights key = Inr (loss, nll_loss, out)"
  shows "\<exists>L0 N0 L1 N1 lm l n ss.
      label_smoothed_nll_loss (log_softmax scores) target (label_smoothing self)
        (ignore_index self) False = Inr (L0, N0) \<and>
      apply_weights weights L0 N0 = Inr (L1, N1) \<and>
      (if int (ndim (to_float m)) = int (ndim L1) - 1
       then expand_to (unsqueeze_last (to_float m)) (shape L1) else Inr (to_float m)) = Inr lm \<and>
      mul_t L1 lm = Inr l \<and> mul_t N1 lm = Inr n \<and>
      loss = fl_div (tsum l) (max 1 (count_true m)) \<and>
      nll_loss = fl_div (tsum n) (max 1 (count_true m)) \<and>
      out (key_prefix key @ ''sample_size'') = Some (LNum ss) \<and>
      num_val ss = max 1 (count_true m) \<and> 1 \<le> num_val ss \<and>
      (\<forall>x. tsum l = Fin x \<longrightarrow> loss = Fin (x / max 1 (count_true m))) \<and>
      (\<forall>x. tsum n = Fin x \<longrightarrow> nll_loss = Fin (x / max 1 (count_true m))) \<and>
      (all_false m \<and> wf_tensor m \<and> wf_tensor L1 \<and> finite_t L1 \<and> wf_tensor N1 \<and> finite_t N1
         \<longrightarrow> loss = Fin 0 \<and> nll_loss = Fin 0)"
proof -
  from assms obtain L0 N0 L1 N1 lm l n where
    ls: "label_smoothed_nll_loss (log_softmax scores) target (label_smoothing self)
       (ignore_index self) False = Inr (L0, N0)"
    and aw: "apply_weights weights L0 N0 = Inr (L1, N1)"
    and lm: "(if int (ndim (to_float m)) = int (ndim L1) - 1
      then expand_to (unsqueeze_last (to_float m)) (shape L1) else Inr (to_float m)) = Inr lm"
    and l: "mul_t L1 lm = Inr l" and n: "mul_t N1 lm = Inr n"
    and loss: "loss = fl_div (tsum l) (max 1 (count_true m))"
    and nll: "nll_loss = fl_div (tsum n) (max 1 (count_true m))"
    and ss: "out (key_prefix key @ ''sample_size'') =
       Some (LNum (if 1 < count_true m then TNum (count_true m) else PyInt 1))"
    by (rule compute_Some_elim)
  have pos: "max 1 (count_true m) \<noteq> 0" by (simp add: max_def)
  have a: "\<exists>ss. out (key_prefix key @ ''sample_size'') = Some (LNum ss) \<and>
            num_val ss = max 1 (count_true m) \<and> 1 \<le> num_val ss"
    using ss by (auto simp add: max_def)
  have b: "\<forall>x. tsum l = Fin x \<longrightarrow> loss = Fin (x / max 1 (count_true m))"
    "\<forall>x. tsum n = Fin x \<longrightarrow> nll_loss = Fin (x / max 1 (count_true m))"
    using loss nll pos by (simp_all add: fdiv_def)
  have c: "loss = Fin 0 \<and> nll_loss = Fin 0"
    if h: "all_false m \<and> wf_tensor m \<and> wf_tensor L1 \<and> finite_t L1 \<and> wf_tensor N1 \<and> finite_t N1"
  proof -
    have z: "\<forall>y\<in>set (data (to_float m)). y = 0" using h to_float_all_false by blast
    have zl: "wf_tensor lm \<and> (\<forall>y\<in>set (data lm). y = 0)"
    proof (cases "int (ndim (to_float m)) = int (ndim L1) - 1")
      case True
      with lm have "expand_to (unsqueeze_last (to_float m)) (shape L1) = Inr lm" by simp
      then show ?thesis using h z by (intro expand_to_zeros[of "unsqueeze_last (to_float m)"]) simp_all
    next
      case False
      with lm have "lm = to_float m" by simp
      then show ?thesis using z h by simp
    qed
    have "tsum l = 0" using mul_t_zero_sum_finite[OF l] zl h by blast
    moreover have "tsum n = 0" using mul_t_zero_sum_finite[OF n] zl h by blast
    ultimately show ?thesis using loss nll pos by (simp add: fl_arith fl_div_Fin_pos)
  qed
  from a obtain ss' where a': "out (key_prefix key @ ''sample_size'') = Some (LNum ss')"
    "num_val ss' = max 1 (count_true m)" "1 \<le> num_val ss'" by blast
  show ?thesis
    apply (rule exI[of _ L0], rule exI[of _ N0], rule exI[of _ L1], rule exI[of _ N1])
    apply (rule exI[of _ lm], rule exI[of _ l], rule exI[of _ n], rule exI[of _ ss'])
    using ls aw lm l n loss nll a' b c by blast
qed

lemma Coord2Seq_unguarded:
  assumes "Coord2SeqCrossEntropyLoss_forward self scores target (Some m) coord_mask weights
             = Inr (loss, out)"
    and "all_false m" and "wf_tensor m"
  shows "out ''sample_size'' = Some (LNum (TNum 0)) \<and> loss = NaN"
proof -
  from assms(1) obtain L1 l where l: "mul_t L1 (to_float m) = Inr l"
    and loss: "loss = fl_div (tsum l) (count_true m)"
    and ss: "out ''sample_size'' = Some (LNum (TNum (count_true m)))"
    unfolding Coord2SeqCrossEntropyLoss_forward_def Let_def
    by (auto simp add: bindE_Inr_iff)
  have "tsum l = 0 \<or> tsum l = NaN"
    using mul_t_zero_sum[OF l] assms(2,3) to_float_all_false by simp
  then show ?thesis
    using loss ss count_true_all_false[OF assms(2)] by (simp add: fl_div_zero_NaN)
qed

lemma RDM_unguarded:
  assumes "RDMCrossEntropyLoss_forward self scores target (Some m) weights cal watch
             = Inr (loss, out)"
    and "all_false m" and "wf_tensor m"
  shows "out ''sample_size'' = Some (LNum (TNum 0)) \<and> loss = NaN"
proof -
  from assms(1) obtain L1 l where l: "mul_t L1 (to_float m) = Inr l"
    and loss: "loss = fl_div (tsum l) (count_true m)"
    and ss: "out ''sample_size'' = Some (LNum (TNum (count_true m)))"
    unfolding RDMCrossEntropyLoss_forward_def Let_def
    by (cases cal; cases watch) (auto simp add: bindE_Inr_iff)
  have "tsum l = 0 \<or> tsum l = NaN"
    using mul_t_zero_sum[OF l] assms(2,3) to_float_all_false by simp
  then show ?thesis
    using loss ss count_true_all_false[OF assms(2)] by (simp add: fl_div_zero_NaN)
qed

lemma filter_zip_all_false:
  "list_all (\<lambda>b. \<not> b) bs \<Longrightarrow> filter fst (zip bs xs) = []"
proof (induction bs arbitrary: xs)
  case Nil
  then show ?case by simp
next
  case (Cons b bs)
  then show ?case by (cases xs) auto
qed

lemma bool_index_all_false:
  assumes "bool_index t m = Inr t'" and "all_false m"
  shows "data t' = [] \<and> prod_list (shape t') = 0"
  using assms
  by (auto simp add: bool_index_def Let_def all_false_def filter_zip_all_false split: if_splits)

lemma list_all2_prod_zero:
  "list_all2 (\<lambda>d e. d = e \<or> d = 1) ps t \<Longrightarrow> prod_list ps = 0 \<Longrightarrow> prod_list t = (0::nat)"
  by (induction ps t rule: list_all2_induct) auto

lemma broadcastable_to_prod_zero:
  "broadcastable_to s t \<Longrightarrow> prod_list s = 0 \<Longrightarrow> prod_list t = 0"
  using list_all2_prod_zero[of "pad_shape (length t) s" t] by (simp add: broadcastable_to_def)

lemma masked_fill_empty:
  assumes "masked_fill t m v = Inr t'" and "prod_list (shape m) = 0"
  shows "data t' = []"
  using assms broadcastable_to_prod_zero[of "shape m" "shape t"]
  by (auto simp add: masked_fill_def split: if_splits)

lemma lsnl_empty_target:
  assumes "label_smoothed_nll_loss lprobs target eps (Some ig) True = Inr (loss, nll_loss)"
    and "prod_list (shape target) = 0"
  shows "tsum loss = 0 \<and> tsum nll_loss = 0"
proof -
  let ?flag = "int (ndim target) = int (ndim lprobs) - 1"
  let ?target = "if ?flag then unsqueeze_last target else target"
  have p: "prod_list (shape ?target) = 0" using assms(2) by (simp add: unsqueeze_last_def)
  have sm: "prod_list (shape (eq_scalar ?target ig)) = 0" using p by (simp add: eq_scalar_def)
  from assms(1) obtain g n1 s1 C where
    n1: "masked_fill (neg g) (eq_scalar ?target ig) 0 = Inr n1"
    and s1: "masked_fill (neg (sum_last_keepdim lprobs)) (eq_scalar ?target ig) 0 = Inr s1"
    and nl: "nll_loss = sum_all (if ?flag then squeeze_last n1 else n1)"
    and ad: "add_t (scale (1 - eps - eps / real_of_int (int C - 1)) nll_loss)
           (scale (eps / real_of_int (int C - 1))
              (sum_all (if ?flag then squeeze_last s1 else s1))) = Inr loss"
    unfolding label_smoothed_nll_loss_def Let_def
    by (cases "?flag") (auto simp add: bindE_Inr_iff split: if_splits)
  have d1: "data n1 = []" using masked_fill_empty[OF n1 sm] .
  have d2: "data s1 = []" using masked_fill_empty[OF s1 sm] .
  have nz: "nll_loss = Tensor [] [0]"
    using nl d1 by (simp add: sum_all_def squeeze_last_def)
  have sz: "sum_all (if ?flag then squeeze_last s1 else s1) = Tensor [] [0]"
    using d2 by (simp add: sum_all_def squeeze_last_def)
  have "loss = Tensor [] [0]"
    using ad unfolding nz sz by (simp add: add_t_def scale_def binop_same_shape fl_arith)
  then show ?thesis using nz by (simp add: tsum_def)
qed

lemma CrossEntropyLoss_unguarded:
  assumes "CrossEntropyLoss_forward self scores target (Some m) = Inr (loss_avg, out)"
    and "all_false m"
  shows "out ''sample_size'' = Some (LNum (TNum 0)) \<and> loss_avg = NaN"
proof -
  from assms(1) obtain ig where ig: "ignore_index self = Some ig"
    by (cases "ignore_index self") (auto simp add: CrossEntropyLoss_forward_def)
  from CrossEntropyLoss_forward_average[OF ig assms(1)]
  obtain scores1 target1 scores2 loss nll_loss where
    t1: "bool_index target m = Inr target1"
    and l: "label_smoothed_nll_loss (log_softmax scores2) (flatten target1)
              (label_smoothing self) (Some ig) True = Inr (loss, nll_loss)"
    and avg: "loss_avg = fl_div (tsum loss) (count_ne (flatten target1) ig)"
    and ss: "out ''sample_size'' = Some (LNum (TNum (count_ne (flatten target1) ig)))"
    by auto
  have e: "data (flatten target1) = []" "prod_list (shape (flatten target1)) = 0"
    using bool_index_all_false[OF t1 assms(2)] by (simp_all add: flatten_def numel_def)
  then have c: "count_ne (flatten target1) ig = 0" by (simp add: count_ne_def)
  from lsnl_empty_target[OF l e(2)] have "tsum loss = 0" by simp
  then show ?thesis using avg ss c by (simp add: fl_div_zero_NaN)
qed

text \<open>
  C8. In \<open>StructAARDMCrossEntropyLoss\<close> the sum of the masked, weighted per-position
  losses is divided by \<open>max(1, label_mask.sum())\<close>, and so is the sum of the nll losses:
  the logged sample size is at least one, a finite sum gives a finite loss, and a mask that
  allows no position gives a loss of zero if the weighted per-position losses are finite
  (an infinite or NaN loss at a masked position stays NaN after the product with the
  mask). The other three classes divide by the raw sum: with such a mask their sample size
  is zero and the returned loss is NaN.
\<close>

theorem StructAARDM_denominator_guarded:
  "(compute self cal watch scores target (Some m) weights key = Inr (loss, nll_loss, out) \<longrightarrow>
      (\<exists>L0 N0 L1 N1 lm l n ss.
         label_smoothed_nll_loss (log_softmax scores) target (label_smoothing self)
           (ignore_index self) False = Inr (L0, N0) \<and>
         apply_weights weights L0 N0 = Inr (L1, N1) \<and>
         (if int (ndim (to_float m)) = int (ndim L1) - 1
          then expand_to (unsqueeze_last (to_float m)) (shape L1)
          else Inr (to_float m)) = Inr lm \<and>
         mul_t L1 lm = Inr l \<and> mul_t N1 lm = Inr n \<and>
         loss = fl_div (tsum l) (max 1 (count_true m)) \<and>
         nll_loss = fl_div (tsum n) (max 1 (count_true m)) \<and>
         out (key_prefix key @ ''sample_size'') = Some (LNum ss) \<and>
         num_val ss = max 1 (count_true m) \<and> 1 \<le> num_val ss \<and>
         (\<forall>x. tsum l = Fin x \<longrightarrow> loss = Fin (x / max 1 (count_true m))) \<and>
         (\<forall>x. tsum n = Fin x \<longrightarrow> nll_loss = Fin (x / max 1 (count_true m))) \<and>
         (all_false m \<and> wf_tensor m \<and> wf_tensor L1 \<and> finite_t L1 \<and>
          wf_tensor N1 \<and> finite_t N1 \<longrightarrow> loss = Fin 0 \<and> nll_loss = Fin 0))) \<and>
   (Coord2SeqCrossEntropyLoss_forward self scores target (Some m) coord_mask weights
      = Inr (loss1, out1) \<and> all_false m \<and> wf_tensor m \<longrightarrow>
      out1 ''sample_size'' = Some (LNum (TNum 0)) \<and> loss1 = NaN) \<and>
   (RDMCrossEntropyLoss_forward self scores target (Some m) weights cal watch
      = Inr (loss2, out2) \<and> all_false m \<and> wf_tensor m \<longrightarrow>
      out2 ''sample_size'' = Some (LNum (TNum 0)) \<and> loss2 = NaN) \<and>
   (CrossEntropyLoss_forward self scores target (Some m) = Inr (loss3, out3) \<and> all_false m \<longrightarrow>
      out3 ''sample_size'' = Some (LNum (TNum 0)) \<and> loss3 = NaN)"
  using compute_guarded[of self cal watch scores target m weights key loss nll_loss out]
    Coord2Seq_unguarded[of self scores target m coord_mask weights loss1 out1]
    RDM_unguarded[of self scores target m weights cal watch loss2 out2]
    CrossEntropyLoss_unguarded[of self scores target m loss3 out3]
  by (intro conjI impI) (assumption | elim conjE | simp)+

theorem StructAARDM_denominator_guarded_witness:
  "\<exists>out out1 out2 out3.
     compute \<lparr>ignore_index = Some 0, label_smoothing = 0\<rparr> False False
       (Tensor [2, 1, 2] [0, 0, 0, 0]) (Tensor [2, 1] [1, 1])
       (Some (Tensor [2, 1] [False, False])) None ''aa'' = Inr (Fin 0, Fin 0, out) \<and>
     out ''aa/sample_size'' = Some (LNum (PyInt 1)) \<and>
     Coord2SeqCrossEntropyLoss_forward \<lparr>ignore_index = Some 0, label_smoothing = 0\<rparr>
       (Tensor [2, 1, 2] [0, 0, 0, 0]) (Tensor [2, 1] [1, 1])
       (Some (Tensor [2, 1] [False, False])) None None = Inr (NaN, out1) \<and>
     out1 ''sample_size'' = Some (LNum (TNum 0)) \<and>
     RDMCrossEntropyLoss_forward \<lparr>ignore_index = Some 0, label_smoothing = 0\<rparr>
       (Tensor [2, 1, 2] [0, 0, 0, 0]) (Tensor [2, 1] [1, 1])
       (Some (Tensor [2, 1] [False, False])) None False False = Inr (NaN, out2) \<and>
     out2 ''sample_size'' = Some (LNum (TNum 0)) \<and>
     CrossEntropyLoss_forward \<lparr>ignore_index = Some 0, label_smoothing = 0\<rparr>
       (Tensor [2, 1, 2] [0, 0, 0, 0]) (Tensor [2, 1] [1, 1])
       (Some (Tensor [2, 1] [False, False])) = Inr (NaN, out3) \<and>
     out3 ''sample_size'' = Some (LNum (TNum 0))"
proof -
  let ?cfg = "\<lparr>ignore_index = Some 0, label_smoothing = 0\<rparr>"
  let ?S = "Tensor [2, 1, 2] [0, 0, 0, 0] :: fl tensor"
  let ?T = "Tensor [2, 1] [1, 1] :: int tensor"
  let ?M = "Tensor [2, 1] [False, False]"
  let ?A = "Tensor [2, 1] [Fin (ln 2), Fin (ln 2)]"
  have af: "all_false ?M" by (simp add: all_false_def)
  have wm: "wf_tensor ?M" by (simp add: wf_tensor_def)
  have ev: "label_smoothed_nll_loss (log_softmax ?S) ?T (label_smoothing ?cfg)
              (ignore_index ?cfg) False = Inr (?A, ?A)"
    by (simp add: tensor_eval)
  have fa: "wf_tensor ?A \<and> finite_t ?A" by (simp add: wf_tensor_def finite_t_def)
  have "\<exists>loss nll_loss out. compute ?cfg False False ?S ?T (Some ?M) None ''aa''
           = Inr (loss, nll_loss, out)"
    by (simp add: compute_def tensor_eval)
  then obtain loss nll_loss out where
    c: "compute ?cfg False False ?S ?T (Some ?M) None ''aa'' = Inr (loss, nll_loss, out)"
    by blast
  have "\<exists>loss1 out1. Coord2SeqCrossEntropyLoss_forward ?cfg ?S ?T (Some ?M) None None
           = Inr (loss1, out1)"
    by (simp add: Coord2SeqCrossEntropyLoss_forward_def tensor_eval)
  then obtain loss1 out1 where
    c1: "Coord2SeqCrossEntropyLoss_forward ?cfg ?S ?T (Some ?M) None None = Inr (loss1, out1)"
    by blast
  have "\<exists>loss2 out2. RDMCrossEntropyLoss_forward ?cfg ?S ?T (Some ?M) None False False
           = Inr (loss2, out2)"
    by (simp add: RDMCrossEntropyLoss_forward_def tensor_eval)
  then obtain loss2 out2 where
    c2: "RDMCrossEntropyLoss_forward ?cfg ?S ?T (Some ?M) None False False = Inr (loss2, out2)"
    by blast
  have "\<exists>loss3 out3. CrossEntropyLoss_forward ?cfg ?S ?T (Some ?M) = Inr (loss3, out3)"
    by (simp add: CrossEntropyLoss_forward_def tensor_eval)
  then obtain loss3 out3 where
    c3: "CrossEntropyLoss_forward ?cfg ?S ?T (Some ?M) = Inr (loss3, out3)"
    by blast
  note t = StructAARDM_denominator_guarded[of ?cfg False False ?S ?T ?M None "''aa''" loss
      nll_loss out None loss1 out1 loss2 out2 loss3 out3]
  from t c obtain L0 N0 L1 N1 where
    ls: "label_smoothed_nll_loss (log_softmax ?S) ?T (label_smoothing ?cfg)
           (ignore_index ?cfg) False = Inr (L0, N0)"
    and aw: "apply_weights None L0 N0 = Inr (L1, N1)"
    and z: "all_false ?M \<and> wf_tensor ?M \<and> wf_tensor L1 \<and> finite_t L1 \<and>
          wf_tensor N1 \<and> finite_t N1 \<longrightarrow> loss = Fin 0 \<and> nll_loss = Fin 0"
    by blast
  from ls ev have "L0 = ?A \<and> N0 = ?A" by simp
  with aw have "L1 = ?A" "N1 = ?A" by (auto simp add: apply_weights_def)
  with z af wm fa have r0: "loss = Fin 0 \<and> nll_loss = Fin 0" by blast
  from t c1 c2 c3 af wm
  have r: "out1 ''sample_size'' = Some (LNum (TNum 0)) \<and> loss1 = NaN \<and>
          out2 ''sample_size'' = Some (LNum (TNum 0)) \<and> loss2 = NaN \<and>
          out3 ''sample_size'' = Some (LNum (TNum 0)) \<and> loss3 = NaN"
    by blast
  have k: "out ''aa/sample_size'' = Some (LNum (PyInt 1))"
    using c by (auto simp add: compute_def tensor_eval)
  show ?thesis using r0 r c c1 c2 c3 k by blast
qed

text \<open>
  Without the finiteness the last part fails: an infinite per-position loss at a masked
  position gives NaN after the product with the mask, and the loss returned for a mask
  that allows no position is NaN.
\<close>

theorem StructAARDM_denominator_guarded_counterexample:
  "map_sum id fst
     (compute \<lparr>ignore_index = Some 0, label_smoothing = 0\<rparr> False False
        (Tensor [1, 1, 2] [0, NInf]) (Tensor [1, 1] [1])
        (Some (Tensor [1, 1] [False])) None []) = Inr NaN"
  by (simp add: compute_def tensor_eval)

section \<open>No smoothing\<close>












lemma neg_wf [simp]: "wf_tensor (neg t) = wf_tensor t"
  by (simp add: neg_def wf_tensor_def)

lemma neg_shape [simp]: "shape (neg t) = shape t"
  by (simp add: neg_def)








lemma sum_all_wf [simp]: "wf_tensor (sum_all t)"
  by (simp add: sum_all_def wf_tensor_def)




lemma log_softmax_shape [simp]: "shape (log_softmax t) = shape t"
  by (simp add: log_softmax_def)










section \<open>Properties of the dict loop\<close>

lemma dict_loop_collect:
  "dict_loop self cal watch td md wd items st =
     (case collect (key_result self cal watch td md wd) items of
        Inl e \<Rightarrow> Inl e
      | Inr rs \<Rightarrow>
          Inr \<lparr>losses = foldl fl_add (losses st) (map fst rs),
               nll_losses = foldl fl_add (nll_losses st) (map (\<lambda>r. fst (snd r)) rs),
               logging_output_dict =
                 foldl (++) (logging_output_dict st) (map (\<lambda>r. snd (snd r)) rs),
               last_iter = (if items = [] then last_iter st
                            else Some (fst (last items), snd (snd (last rs))))\<rparr>)"
proof (induction items arbitrary: st)
  case Nil
  then show ?case by simp
next
  case (Cons item items)
  obtain k scores where item: "item = (k, scores)" by (cases item)
  show ?case
  proof (cases "key_result self cal watch td md wd item")
    case (Inl e)
    then show ?thesis
      unfolding item by (auto simp add: key_result_def bindE_Inl_iff)
  next
    case (Inr r)
    obtain loss nll lg where r: "r = (loss, nll, lg)" by (cases r)
    from Inr obtain target label_mask weights where
      g: "getitem td k = Inr target" "getitem_opt md k = Inr label_mask"
         "getitem_opt wd k = Inr weights"
         "compute self cal watch scores target label_mask weights k = Inr (loss, nll, lg)"
      unfolding item r by (auto simp add: key_result_def bindE_Inr_iff)
    show ?thesis
    proof (cases "collect (key_result self cal watch td md wd) items")
      case (Inl e)
      then show ?thesis
        using Inr g Cons.IH unfolding item r by simp
    next
      case rs: (Inr rs)
      have len: "items \<noteq> [] \<Longrightarrow> rs \<noteq> []"
        using rs by (cases items) (auto simp add: bindE_Inr_iff)
      show ?thesis
        using Inr g rs Cons.IH len unfolding item r by (auto simp add: last_ConsR)
    qed
  qed
qed



lemma collect_length: "collect f xs = Inr rs \<Longrightarrow> length rs = length xs"
  by (induction xs arbitrary: rs) (auto simp add: bindE_Inr_iff)

lemma collect_last: "collect f xs = Inr rs \<Longrightarrow> xs \<noteq> [] \<Longrightarrow> f (last xs) = Inr (last rs)"
proof (induction xs arbitrary: rs)
  case Nil
  then show ?case by simp
next
  case (Cons x xs)
  from Cons.prems(1) obtain y ys where
    y: "f x = Inr y" and ys: "collect f xs = Inr ys" and rs: "rs = y # ys"
    by (auto simp add: bindE_Inr_iff)
  show ?case
  proof (cases "xs = []")
    case True
    then show ?thesis using y ys rs by simp
  next
    case False
    then have "ys \<noteq> []" using collect_length[OF ys] by auto
    then show ?thesis using Cons.IH[OF ys False] False rs by simp
  qed
qed

lemma compute_log_keys:
  assumes "compute self cal watch scores target label_mask weights key = Inr (loss, nll_loss, lg)"
  shows "lg (key_prefix key @ ''sample_size'') \<noteq> None \<and>
         lg (key_prefix key @ ''fullseq_loss'') \<noteq> None \<and>
         lg (key_prefix key @ ''fullseq_nll_loss'') \<noteq> None \<and>
         lg (key_prefix key @ ''ppl'') \<noteq> None"
  using assms unfolding compute_def Let_def key_prefix_def
  by (cases label_mask; cases cal; cases watch) (auto simp add: bindE_Inr_iff)

lemma key_result_log_keys:
  assumes "key_result self cal watch td md wd item = Inr r" and "fst item \<noteq> []"
  shows "snd (snd r) (fst item @ ''/sample_size'') \<noteq> None \<and>
         snd (snd r) (fst item @ ''/fullseq_loss'') \<noteq> None \<and>
         snd (snd r) (fst item @ ''/fullseq_nll_loss'') \<noteq> None \<and>
         snd (snd r) (fst item @ ''/ppl'') \<noteq> None"
proof -
  obtain loss nll lg where r: "r = (loss, nll, lg)" by (cases r)
  from assms(1) obtain target label_mask weights where
    "compute self cal watch (snd item) target label_mask weights (fst item) = Inr (loss, nll, lg)"
    unfolding r by (auto simp add: key_result_def bindE_Inr_iff)
  from compute_log_keys[OF this] assms(2) show ?thesis
    unfolding r by (simp add: key_prefix_def)
qed



lemma forward_dict_unfold:
  assumes "collect (key_result self cal watch td md wd) sd = Inr rs" and "sd \<noteq> []"
  shows "StructAARDMCrossEntropyLoss_forward self (DictInput sd td md wd) cal watch =
     bindE (getlog (snd (snd (last rs))) (fst (last sd) @ ''/sample_size'')) (\<lambda>v1.
     bindE (getlog (snd (snd (last rs))) (fst (last sd) @ ''/fullseq_loss'')) (\<lambda>v3.
     bindE (getlog (snd (snd (last rs))) (fst (last sd) @ ''/fullseq_nll_loss'')) (\<lambda>v4.
     bindE (getlog (snd (snd (last rs))) (fst (last sd) @ ''/ppl'')) (\<lambda>v5.
     Inr (fl_div (fl_sum (map fst rs)) (real (length sd)),
          (foldl (++) Map.empty (map (\<lambda>r. snd (snd r)) rs))
            (''sample_size'' \<mapsto> v1,
             ''nll_loss'' \<mapsto>
                LFl (fl_div (fl_sum (map (\<lambda>r. fst (snd r)) rs)) (real (length sd))),
             ''fullseq_loss'' \<mapsto> v3,
             ''fullseq_nll_loss'' \<mapsto> v4,
             ''ppl'' \<mapsto> v5))))))"
  using assms
  by (simp add: StructAARDMCrossEntropyLoss_forward_def dict_loop_collect fl_sum_def Let_def)

lemma forward_dict_error:
  assumes "collect (key_result self cal watch td md wd) sd = Inl e"
  shows "StructAARDMCrossEntropyLoss_forward self (DictInput sd td md wd) cal watch = Inl e"
  using assms
  by (simp add: StructAARDMCrossEntropyLoss_forward_def dict_loop_collect)

lemma forward_dict_empty:
  "StructAARDMCrossEntropyLoss_forward self (DictInput [] td md wd) cal watch
     = Inl UnboundLocalError"
  by (simp add: StructAARDMCrossEntropyLoss_forward_def)

text \<open>
  C9. On dict inputs, a call that returns has at least one key; the returned loss is the
  sum of the per-key losses over the number of keys, the logged \<open>nll_loss\<close> is the same
  mean of the per-key nll losses, and the logged \<open>sample_size\<close>, \<open>fullseq_loss\<close>,
  \<open>fullseq_nll_loss\<close> and \<open>ppl\<close> are the entries of the last key's log. The call does
  return when every key's \<open>compute\<close> returns and the last key is not the empty string.
\<close>

theorem StructAARDM_dict_aggregation:
  "(StructAARDMCrossEntropyLoss_forward self (DictInput sd td md wd) cal watch = Inr (loss, out)
      \<longrightarrow>
    (\<exists>rs v1 v3 v4 v5.
       collect (key_result self cal watch td md wd) sd = Inr rs \<and>
       sd \<noteq> [] \<and> length rs = length sd \<and>
       loss = fl_div (fl_sum (map fst rs)) (real (length sd)) \<and>
       out ''nll_loss'' =
         Some (LFl (fl_div (fl_sum (map (\<lambda>r. fst (snd r)) rs)) (real (length sd)))) \<and>
       snd (snd (last rs)) (fst (last sd) @ ''/sample_size'') = Some v1 \<and>
       out ''sample_size'' = Some v1 \<and>
       snd (snd (last rs)) (fst (last sd) @ ''/fullseq_loss'') = Some v3 \<and>
       out ''fullseq_loss'' = Some v3 \<and>
       snd (snd (last rs)) (fst (last sd) @ ''/fullseq_nll_loss'') = Some v4 \<and>
       out ''fullseq_nll_loss'' = Some v4 \<and>
       snd (snd (last rs)) (fst (last sd) @ ''/ppl'') = Some v5 \<and>
       out ''ppl'' = Some v5)) \<and>
   (collect (key_result self cal watch td md wd) sd = Inr rs' \<and> sd \<noteq> [] \<and>
    fst (last sd) \<noteq> [] \<longrightarrow>
    (\<exists>loss' out'.
       StructAARDMCrossEntropyLoss_forward self (DictInput sd td md wd) cal watch
         = Inr (loss', out')))"
proof (intro conjI impI)
  assume ret: "StructAARDMCrossEntropyLoss_forward self (DictInput sd td md wd) cal watch
                 = Inr (loss, out)"
  have ne: "sd \<noteq> []" using ret forward_dict_empty[of self td md wd cal watch] by auto
  obtain rs where rs: "collect (key_result self cal watch td md wd) sd = Inr rs"
    using ret forward_dict_error[of self cal watch td md wd sd]
    by (cases "collect (key_result self cal watch td md wd) sd") auto
  from ret[unfolded forward_dict_unfold[OF rs ne]]
  obtain v1 v3 v4 v5 where
    v: "snd (snd (last rs)) (fst (last sd) @ ''/sample_size'') = Some v1"
       "snd (snd (last rs)) (fst (last sd) @ ''/fullseq_loss'') = Some v3"
       "snd (snd (last rs)) (fst (last sd) @ ''/fullseq_nll_loss'') = Some v4"
       "snd (snd (last rs)) (fst (last sd) @ ''/ppl'') = Some v5"
    and l: "loss = fl_div (fl_sum (map fst rs)) (real (length sd))"
    and o: "out = (foldl (++) Map.empty (map (\<lambda>r. snd (snd r)) rs))
            (''sample_size'' \<mapsto> v1,
             ''nll_loss'' \<mapsto>
                LFl (fl_div (fl_sum (map (\<lambda>r. fst (snd r)) rs)) (real (length sd))),
             ''fullseq_loss'' \<mapsto> v3,
             ''fullseq_nll_loss'' \<mapsto> v4,
             ''ppl'' \<mapsto> v5)"
    by (auto simp add: bindE_Inr_iff getlog_def split: option.splits)
  show "\<exists>rs v1 v3 v4 v5.
       collect (key_result self cal watch td md wd) sd = Inr rs \<and>
       sd \<noteq> [] \<and> length rs = length sd \<and>
       loss = fl_div (fl_sum (map fst rs)) (real (length sd)) \<and>
       out ''nll_loss'' =
         Some (LFl (fl_div (fl_sum (map (\<lambda>r. fst (snd r)) rs)) (real (length sd)))) \<and>
       snd (snd (last rs)) (fst (last sd) @ ''/sample_size'') = Some v1 \<and>
       out ''sample_size'' = Some v1 \<and>
       snd (snd (last rs)) (fst (last sd) @ ''/fullseq_loss'') = Some v3 \<and>
       out ''fullseq_loss'' = Some v3 \<and>
       snd (snd (last rs)) (fst (last sd) @ ''/fullseq_nll_loss'') = Some v4 \<and>
       out ''fullseq_nll_loss'' = Some v4 \<and>
       snd (snd (last rs)) (fst (last sd) @ ''/ppl'') = Some v5 \<and>
       out ''ppl'' = Some v5"
    apply (rule exI[of _ rs], rule exI[of _ v1], rule exI[of _ v3], rule exI[of _ v4],
        rule exI[of _ v5])
    using rs ne collect_length[OF rs] l v by (simp add: o)
next
  assume a: "collect (key_result self cal watch td md wd) sd = Inr rs' \<and> sd \<noteq> [] \<and>
    fst (last sd) \<noteq> []"
  then have rs: "collect (key_result self cal watch td md wd) sd = Inr rs'"
    and ne: "sd \<noteq> []" and k: "fst (last sd) \<noteq> []" by simp_all
  from key_result_log_keys[OF collect_last[OF rs ne] k]
  show "\<exists>loss' out'.
       StructAARDMCrossEntropyLoss_forward self (DictInput sd td md wd) cal watch
         = Inr (loss', out')"
    unfolding forward_dict_unfold[OF rs ne] by (auto simp add: getlog_def)
qed



theorem StructAARDM_dict_aggregation_witness:
  "\<exists>loss out rs.
     StructAARDMCrossEntropyLoss_forward \<lparr>ignore_index = Some 0, label_smoothing = 0\<rparr>
       (DictInput
          [(''aa'', Tensor [2, 1, 2] [0, 0, 0, 0]), (''bb'', Tensor [2, 1, 2] [0, 0, 0, 0])]
          [(''aa'', Tensor [2, 1] [1, 1]), (''bb'', Tensor [2, 1] [1, 1])]
          (Some [(''aa'', Some (Tensor [2, 1] [True, False])), (''bb'', None)])
          (Some [(''aa'', None), (''bb'', None)]))
       False False = Inr (loss, out) \<and>
     loss = Fin (ln 2) \<and>
     out ''sample_size'' = Some (LNum (TNum 2)) \<and>
     out ''aa/sample_size'' = Some (LNum (PyInt 1)) \<and>
     collect (key_result \<lparr>ignore_index = Some 0, label_smoothing = 0\<rparr> False False
          [(''aa'', Tensor [2, 1] [1, 1]), (''bb'', Tensor [2, 1] [1, 1])]
          (Some [(''aa'', Some (Tensor [2, 1] [True, False])), (''bb'', None)])
          (Some [(''aa'', None), (''bb'', None)]))
        [(''aa'', Tensor [2, 1, 2] [0, 0, 0, 0]), (''bb'', Tensor [2, 1, 2] [0, 0, 0, 0])]
       = Inr rs \<and>
     loss = fl_div (fl_sum (map fst rs)) 2 \<and>
     out ''sample_size'' = snd (snd (last rs)) ''bb/sample_size''"
proof -
  let ?cfg = "\<lparr>ignore_index = Some 0, label_smoothing = 0\<rparr>"
  let ?sd = "[(''aa'', Tensor [2, 1, 2] [0, 0, 0, 0]), (''bb'', Tensor [2, 1, 2] [0, 0, 0, 0])]
               :: (string \<times> fl tensor) list"
  let ?td = "[(''aa'', Tensor [2, 1] [1, 1]), (''bb'', Tensor [2, 1] [1, 1])]
               :: (string \<times> int tensor) list"
  let ?md = "Some [(''aa'', Some (Tensor [2, 1] [True, False])), (''bb'', None)]"
  let ?wd = "Some [(''aa'', None), (''bb'', None)] :: (string \<times> fl tensor option) list option"
  have "\<exists>out. StructAARDMCrossEntropyLoss_forward ?cfg (DictInput ?sd ?td ?md ?wd) False False
          = Inr (Fin (ln 2), out) \<and> out ''sample_size'' = Some (LNum (TNum 2)) \<and>
          out ''aa/sample_size'' = Some (LNum (PyInt 1))"
    by (simp add: StructAARDMCrossEntropyLoss_forward_def compute_def tensor_eval getitem_def
        getitem_opt_def getlog_def map_add_def)
  then obtain out where
    f: "StructAARDMCrossEntropyLoss_forward ?cfg (DictInput ?sd ?td ?md ?wd) False False
          = Inr (Fin (ln 2), out)"
    and s: "out ''sample_size'' = Some (LNum (TNum 2))"
    and a: "out ''aa/sample_size'' = Some (LNum (PyInt 1))"
    by blast
  from StructAARDM_dict_aggregation[of ?cfg ?sd ?td ?md ?wd False False "Fin (ln 2)" out] f
  obtain rs where
    "collect (key_result ?cfg False False ?td ?md ?wd) ?sd = Inr rs"
    "Fin (ln 2) = fl_div (fl_sum (map fst rs)) (real (length ?sd))"
    "out ''sample_size'' = snd (snd (last rs)) (fst (last ?sd) @ ''/sample_size'')"
    by auto
  then show ?thesis using f s a by auto
qed

section \<open>The flags of RDMCrossEntropyLoss.forward\<close>

lemma log_softmax_row_length [simp]: "length (log_softmax_row r) = length r"
  by (simp add: log_softmax_row_def Let_def)

lemma log_softmax_wf:
  assumes "wf_tensor t" and "shape t = sh @ [C]"
  shows "wf_tensor (log_softmax t)"
proof -
  let ?P = "prod_list sh"
  have len: "length (data t) = ?P * C" using assms by (simp add: wf_tensor_def)
  have "map (\<lambda>r. length (log_softmax_row r)) (rows_of ?P C (data t))
        = map (\<lambda>i. C) [0..<?P]"
    by (rule nth_equalityI) (simp_all add: rows_of_row_length[OF len])
  then have "length (concat (map log_softmax_row (rows_of ?P C (data t)))) = ?P * C"
    by (simp add: length_concat o_def sum_list_triv)
  then show ?thesis using assms(2) by (simp add: wf_tensor_def log_softmax_def)
qed

lemma lsnl_log_softmax_returns:
  assumes "shape scores = sh @ [C]" and "shape target = sh" and "2 \<le> C"
    and "wf_tensor scores" and "wf_tensor target"
    and "\<forall>t\<in>set (data target). 0 \<le> t \<and> t < int C"
  shows "\<exists>L N. label_smoothed_nll_loss (log_softmax scores) target eps ig False =
            Inr (Tensor sh L, Tensor sh N)"
proof -
  have C: "C \<noteq> 1" using assms(3) by simp
  have s: "shape (log_softmax scores) = sh @ [C]" using assms(1) by simp
  show ?thesis
    unfolding lsnl_closed[OF s assms(2) C log_softmax_wf[OF assms(4,1)] assms(5,6)] Let_def
    by simp
qed

lemma chunk2_Tensor:
  "2 \<le> n \<Longrightarrow> \<exists>a b. chunk2 (Tensor (n # rest) xs) =
      Inr (Tensor ((n + 1) div 2 # rest) a, Tensor ((n - (n + 1) div 2) # rest) b)"
  by (simp add: chunk2_def Let_def)

lemma watch_t1_t2_returns:
  assumes "sh \<noteq> []" and "2 \<le> hd sh" and "shape m = sh"
  shows "\<exists>t. watch_t1_t2 (Tensor sh xs) (Some m) = Inr t"
proof -
  obtain n rest where sh: "sh = n # rest" using assms(1) by (cases sh) auto
  have n: "2 \<le> n" using assms(2) sh by simp
  have m: "m = Tensor (n # rest) (data m)" using assms(3) sh by (cases m) simp
  obtain a b where c1: "chunk2 (Tensor (n # rest) xs) =
      Inr (Tensor ((n + 1) div 2 # rest) a, Tensor ((n - (n + 1) div 2) # rest) b)"
    using chunk2_Tensor[OF n] by blast
  obtain c d where c2: "chunk2 (Tensor (n # rest) (data m)) =
      Inr (Tensor ((n + 1) div 2 # rest) c, Tensor ((n - (n + 1) div 2) # rest) d)"
    using chunk2_Tensor[OF n] by blast
  show ?thesis
    unfolding watch_t1_t2_def sh
    by (subst m) (simp add: c1 c2 mul_t_def binop_def to_float_def)
qed

lemma watch_t1_t2_None:
  assumes "sh \<noteq> []" and "2 \<le> hd sh"
  shows "watch_t1_t2 (Tensor sh xs) None = Inl AttributeError"
proof -
  obtain n rest where sh: "sh = n # rest" using assms(1) by (cases sh) auto
  have n: "2 \<le> n" using assms(2) sh by simp
  obtain a b where c1: "chunk2 (Tensor (n # rest) xs) =
      Inr (Tensor ((n + 1) div 2 # rest) a, Tensor ((n - (n + 1) div 2) # rest) b)"
    using chunk2_Tensor[OF n] by blast
  show ?thesis unfolding watch_t1_t2_def sh by (simp add: c1)
qed

lemma constant_diff_loss_cases:
  assumes "label_smoothed_nll_loss (log_softmax scores) target (label_smoothing self)
             (ignore_index self) False = Inr (Tensor sh L, Tensor sh N)"
  shows "constant_diff_loss self scores target None lm ss = Inl AttributeError"
    and "shape w = sh \<Longrightarrow> constant_diff_loss self scores target (Some w) None ss = Inl TypeError"
    and "shape w = sh \<Longrightarrow> shape m = sh \<Longrightarrow>
         \<exists>c. constant_diff_loss self scores target (Some w) (Some m) ss = Inr c"
  using assms by (simp_all add: constant_diff_loss_def new_ones_def mul_t_def binop_def)



lemma nonpad_count_div:
  assumes "ignore_index self = None \<longrightarrow> 0 < numel target"
  shows "\<exists>x. num_div (nonpad_count self target) (numel target) = Inr x"
  using assms by (cases "ignore_index self") (auto simp add: nonpad_count_def)

text \<open>
  C10. The flags of \<open>RDMCrossEntropyLoss.forward\<close> have preconditions: on well-shaped
  inputs (scores \<open>sh @ [C]\<close> with \<open>C \<ge> 2\<close>, targets, weights and mask of shape \<open>sh\<close>,
  targets in range, at least two batch rows when the halves are watched), the call returns
  if \<open>cal_constant_loss\<close> comes with weights and a label mask and \<open>watch_t1_t2_loss\<close>
  comes with a label mask; if one of these is \<open>None\<close> the call fails on it, with an
  AttributeError or a TypeError.
\<close>

theorem RDM_flag_preconditions:
  assumes sc: "shape scores = sh @ [C]" and tg: "shape target = sh" and C: "2 \<le> C"
    and wfs: "wf_tensor scores" and wft: "wf_tensor target"
    and rng: "\<forall>t\<in>set (data target). 0 \<le> t \<and> t < int C"
    and w: "\<forall>w. weights = Some w \<longrightarrow> shape w = sh"
    and m: "\<forall>m. label_mask = Some m \<longrightarrow> shape m = sh"
    and nz: "ignore_index self = None \<longrightarrow> 0 < prod_list sh"
    and b: "watch \<longrightarrow> sh \<noteq> [] \<and> 2 \<le> hd sh"
  shows "((cal \<longrightarrow> weights \<noteq> None \<and> label_mask \<noteq> None) \<and> (watch \<longrightarrow> label_mask \<noteq> None) \<longrightarrow>
           (\<exists>loss out. RDMCrossEntropyLoss_forward self scores target label_mask weights cal watch
               = Inr (loss, out))) \<and>
        (cal \<and> (weights = None \<or> label_mask = None) \<or> watch \<and> label_mask = None \<longrightarrow>
           RDMCrossEntropyLoss_forward self scores target label_mask weights cal watch
             = Inl AttributeError \<or>
           RDMCrossEntropyLoss_forward self scores target label_mask weights cal watch
             = Inl TypeError)"
proof -
  obtain L N where ls: "label_smoothed_nll_loss (log_softmax scores) target (label_smoothing self)
      (ignore_index self) False = Inr (Tensor sh L, Tensor sh N)"
    using lsnl_log_softmax_returns[OF sc tg C wfs wft rng] by blast
  have sfl: "shape_first_last scores = Inr (hd (sh @ [C]), C)"
    using sc by (simp add: shape_first_last_def)
  obtain L1 N1 where aw: "apply_weights weights (Tensor sh L) (Tensor sh N) =
      Inr (Tensor sh L1, Tensor sh N1)"
    using w by (cases weights) (auto simp add: apply_weights_def mul_t_def binop_def)
  have nt: "ignore_index self = None \<longrightarrow> 0 < numel target"
    using nz tg by (simp add: numel_def)
  obtain x0 where nd: "num_div (nonpad_count self target) (numel target) = Inr x0"
    using nonpad_count_div[OF nt] by blast
  note pre = RDMCrossEntropyLoss_forward_def Let_def sfl ls nd
  show ?thesis
  proof (cases label_mask)
    case None
    show ?thesis
    proof (cases watch)
      case True
      then have "watch_t1_t2 (Tensor sh L1) None = Inl AttributeError"
        using b watch_t1_t2_None by blast
      then show ?thesis using None True by (simp add: pre aw)
    next
      case False
      show ?thesis
      proof (cases weights)
        case wn: None
        have "constant_diff_loss self scores target None None (nonpad_count self target)
                = Inl AttributeError"
          using constant_diff_loss_cases(1)[OF ls] .
        then show ?thesis using None False wn by (simp add: pre aw[unfolded wn])
      next
        case (Some wt)
        then have "shape wt = sh" using w by simp
        then have "constant_diff_loss self scores target (Some wt) None
                     (nonpad_count self target) = Inl TypeError"
          using constant_diff_loss_cases(2)[OF ls] by blast
        then show ?thesis using None False Some by (simp add: pre aw[unfolded Some])
      qed
    qed
  next
    case (Some mk)
    then have ms: "shape mk = sh" using m by simp
    have fs: "shape (to_float mk) = sh" using ms by (simp add: to_float_def)
    obtain ml where ml: "mul_t (Tensor sh L1) (to_float mk) = Inr ml"
      using fs by (simp add: mul_t_def binop_def)
    obtain mn where mn: "mul_t (Tensor sh N1) (to_float mk) = Inr mn"
      using fs by (simp add: mul_t_def binop_def)
    have wt: "watch \<Longrightarrow> \<exists>t. watch_t1_t2 (Tensor sh L1) (Some mk) = Inr t"
      using b ms watch_t1_t2_returns by blast
    have cd: "constant_diff_loss self scores target weights (Some (to_float mk))
                 (TNum (count_true mk)) =
              (case weights of None \<Rightarrow> Inl AttributeError
               | Some wt \<Rightarrow> constant_diff_loss self scores target (Some wt) (Some (to_float mk))
                    (TNum (count_true mk)))"
      using constant_diff_loss_cases(1)[OF ls] by (cases weights) simp_all
    have cok: "\<And>wt. weights = Some wt \<Longrightarrow>
        \<exists>c. constant_diff_loss self scores target (Some wt) (Some (to_float mk))
                    (TNum (count_true mk)) = Inr c"
      using constant_diff_loss_cases(3)[OF ls _ fs] w by blast
    show ?thesis
    proof (cases watch)
      case True
      then obtain t where t: "watch_t1_t2 (Tensor sh L1) (Some mk) = Inr t" using wt by blast
      show ?thesis
      proof (cases weights)
        case wn: None
        then show ?thesis using Some True t ml mn cd[unfolded wn]
          by (cases t) (simp add: pre aw[unfolded wn])
      next
        case sw: (Some wt)
        then obtain c where "constant_diff_loss self scores target (Some wt)
            (Some (to_float mk)) (TNum (count_true mk)) = Inr c"
          using cok by blast
        then show ?thesis using Some True t ml mn sw
          by (cases t) (simp add: pre aw[unfolded sw])
      qed
    next
      case False
      show ?thesis
      proof (cases weights)
        case wn: None
        then show ?thesis using Some False ml mn cd[unfolded wn] by (simp add: pre aw[unfolded wn])
      next
        case sw: (Some wt)
        then obtain c where "constant_diff_loss self scores target (Some wt)
            (Some (to_float mk)) (TNum (count_true mk)) = Inr c"
          using cok by blast
        then show ?thesis using Some False ml mn sw by (simp add: pre aw[unfolded sw])
      qed
    qed
  qed
qed

text \<open>
  The claim as it was stated fails: with \<open>cal_constant_loss\<close> set, weights given and no
  label mask (and nothing watched) the product with the mask raises a TypeError.
\<close>

theorem RDM_cal_constant_loss_counterexample:
  "RDMCrossEntropyLoss_forward \<lparr>ignore_index = Some 0, label_smoothing = 0\<rparr>
     (Tensor [2, 1, 2] [0, 0, 0, 0]) (Tensor [2, 1] [1, 1]) None (Some (Tensor [2, 1] [2, 3]))
     True False = Inl TypeError"
  by (simp add: RDMCrossEntropyLoss_forward_def tensor_eval)

theorem RDM_flag_preconditions_witness:
  "(\<exists>loss out.
      RDMCrossEntropyLoss_forward \<lparr>ignore_index = Some 0, label_smoothing = 0\<rparr>
        (Tensor [2, 1, 2] [0, 0, 0, 0]) (Tensor [2, 1] [1, 1])
        (Some (Tensor [2, 1] [True, False])) (Some (Tensor [2, 1] [2, 3])) True True
        = Inr (loss, out)) \<and>
   (RDMCrossEntropyLoss_forward \<lparr>ignore_index = Some 0, label_smoothing = 0\<rparr>
        (Tensor [2, 1, 2] [0, 0, 0, 0]) (Tensor [2, 1] [1, 1]) None None True False
        = Inl AttributeError \<or>
    RDMCrossEntropyLoss_forward \<lparr>ignore_index = Some 0, label_smoothing = 0\<rparr>
        (Tensor [2, 1, 2] [0, 0, 0, 0]) (Tensor [2, 1] [1, 1]) None None True False
        = Inl TypeError)"
  using RDM_flag_preconditions[of "Tensor [2, 1, 2] [0, 0, 0, 0]" "[2, 1]" 2
      "Tensor [2, 1] [1, 1]" "Some (Tensor [2, 1] [2, 3])" "Some (Tensor [2, 1] [True, False])"
      "\<lparr>ignore_index = Some 0, label_smoothing = 0\<rparr>" True True]
    RDM_flag_preconditions[of "Tensor [2, 1, 2] [0, 0, 0, 0]" "[2, 1]" 2
      "Tensor [2, 1] [1, 1]" None None
      "\<lparr>ignore_index = Some 0, label_smoothing = 0\<rparr>" False True]
  by (simp add: wf_tensor_def)

section \<open>Properties of the alpha-carbon reader\<close>

lemma residue_loop_closed:
  "residue_loop cid rs fr =
     Inr (fr\<lparr>residues_info := residues_info fr @ map (ca_record cid) (filter has_CA rs)\<rparr>)"
proof (induction rs arbitrary: fr)
  case Nil
  then show ?case by simp
next
  case (Cons r rs)
  show ?case
  proof (cases "map_of (child_dict r) ''CA''")
    case None
    then show ?thesis using Cons.IH[of fr] by (simp add: getitem_def has_CA_def)
  next
    case (Some a)
    then show ?thesis
      using Cons.IH[of "fr\<lparr>residues_info := residues_info fr @ [ca_record cid r]\<rparr>"]
      by (simp add: getitem_def has_CA_def ca_record_def)
  qed
qed

lemma chain_loop_closed:
  "chain_loop cs fr =
     Inr (fr\<lparr>residues_info := residues_info fr @
            concat (map (\<lambda>c. map (ca_record (chain_id c)) (filter has_CA (child_list c))) cs)\<rparr>)"
  by (induction cs arbitrary: fr) (simp_all add: residue_loop_closed)

lemma model_loop_closed:
  "model_loop s fr = Inr (fr\<lparr>residues_info := residues_info fr @ spec_alpha_carbon_info s\<rparr>)"
  unfolding spec_alpha_carbon_info_def
  by (induction s arbitrary: fr) (simp_all add: chain_loop_closed)

text \<open>
  C3. For a file that the library parses into a structure, the reader returns, in order,
  one record for each residue that has a \<open>CA\<close> atom, holding the chain id, the residue
  name and number, and the coordinates and b-factor of that atom; a residue without a
  \<open>CA\<close> atom adds nothing, and its KeyError never leaves the function.
\<close>

theorem get_alpha_carbon_info_records:
  assumes "files w pdb_file = Some txt" and "get_structure txt = Inr s"
  shows "fst (get_alpha_carbon_info get_structure pdb_file w) = Inr (spec_alpha_carbon_info s)"
  using assms by (simp add: get_alpha_carbon_info_def model_loop_closed)

theorem get_alpha_carbon_info_records_witness:
  "fst (get_alpha_carbon_info
     (\<lambda>txt. Inr [[\<lparr>chain_id = ''A'', child_list =
        [\<lparr>get_resname = ''GLY'', res_id = ('' '', 1, '' ''),
          child_dict = [(''N'', \<lparr>get_coord = [0, 0, 0], get_bfactor = 50\<rparr>),
                        (''CA'', \<lparr>get_coord = [1, 2, 3], get_bfactor = 90\<rparr>)]\<rparr>,
         \<lparr>get_resname = ''HOH'', res_id = (''W'', 2, '' ''),
          child_dict = [(''O'', \<lparr>get_coord = [4, 5, 6], get_bfactor = 10\<rparr>)]\<rparr>]\<rparr>]])
     ''a.pdb'' \<lparr>files = [''a.pdb'' \<mapsto> ''ATOM'']\<rparr>)
   = Inr [\<lparr>chain = ''A'', resname = ''GLY'', resnum = 1, ca_coord = [1, 2, 3], plddt = 90\<rparr>]"
  using get_alpha_carbon_info_records[of "\<lparr>files = [''a.pdb'' \<mapsto> ''ATOM'']\<rparr>" "''a.pdb''" "''ATOM''"
     "\<lambda>txt. Inr [[\<lparr>chain_id = ''A'', child_list =
        [\<lparr>get_resname = ''GLY'', res_id = ('' '', 1, '' ''),
          child_dict = [(''N'', \<lparr>get_coord = [0, 0, 0], get_bfactor = 50\<rparr>),
                        (''CA'', \<lparr>get_coord = [1, 2, 3], get_bfactor = 90\<rparr>)]\<rparr>,
         \<lparr>get_resname = ''HOH'', res_id = (''W'', 2, '' ''),
          child_dict = [(''O'', \<lparr>get_coord = [4, 5, 6], get_bfactor = 10\<rparr>)]\<rparr>]\<rparr>]]"]
  by (simp add: spec_alpha_carbon_info_def has_CA_def ca_record_def)

section \<open>The reader writes to its own objects only\<close>

lemma wrote_only_refl: "wrote_only lst w w"
  by (simp add: wrote_only_def list_all_iff)

lemma wrote_only_iff:
  "wrote_only lst w w' =
     (files w' = files w \<and> length (heap w) \<le> length (heap w') \<and>
      (\<forall>a<length (heap w). a \<noteq> lst \<longrightarrow> heap w' ! a = heap w ! a))"
  by (auto simp add: wrote_only_def list_all_iff)

lemma wrote_only_trans:
  "wrote_only lst w w1 \<Longrightarrow> wrote_only lst w1 w2 \<Longrightarrow> wrote_only lst w w2"
  unfolding wrote_only_iff by (metis (no_types, lifting) le_trans less_le_trans)

lemma residue_step_wrote_only:
  "residue_step cid ra lst w = (r, w') \<Longrightarrow> wrote_only lst w w'"
  unfolding residue_step_def
  by (auto simp add: wrote_only_iff alloc_def store_def deref_def nth_append
      nth_list_update split: option.splits pyobj.splits if_splits)

lemma residue_loop_h_wrote_only:
  "residue_loop_h cid ras lst w = (r, w') \<Longrightarrow> wrote_only lst w w'"
proof (induction ras arbitrary: w)
  case Nil
  then show ?case by (simp add: wrote_only_refl)
next
  case (Cons ra ras)
  obtain r1 w1 where s: "residue_step cid ra lst w = (r1, w1)" by (cases "residue_step cid ra lst w")
  have f: "wrote_only lst w w1" using s by (rule residue_step_wrote_only)
  show ?case
  proof (cases r1)
    case (Inl e)
    then show ?thesis using Cons.prems s f by simp
  next
    case (Inr u)
    then have "residue_loop_h cid ras lst w1 = (r, w')" using Cons.prems s by simp
    then show ?thesis using Cons.IH f wrote_only_trans by blast
  qed
qed

lemma chain_loop_h_wrote_only:
  "chain_loop_h cas lst w = (r, w') \<Longrightarrow> wrote_only lst w w'"
proof (induction cas arbitrary: w)
  case Nil
  then show ?case by (simp add: wrote_only_refl)
next
  case (Cons ca cas)
  show ?case
  proof (cases "\<exists>cid ras. deref w ca = Some (OChain cid ras)")
    case False
    then have "chain_loop_h (ca # cas) lst w = (Inl TypeError, w)"
      by (auto split: option.splits pyobj.splits)
    then show ?thesis using Cons.prems by (simp add: wrote_only_refl)
  next
    case True
    then obtain cid ras where d: "deref w ca = Some (OChain cid ras)" by blast
    obtain r1 w1 where s: "residue_loop_h cid ras lst w = (r1, w1)"
      by (cases "residue_loop_h cid ras lst w")
    have f: "wrote_only lst w w1" using s by (rule residue_loop_h_wrote_only)
    show ?thesis
    proof (cases r1)
      case (Inl e)
      then show ?thesis using Cons.prems d s f by simp
    next
      case (Inr u)
      then have "chain_loop_h cas lst w1 = (r, w')" using Cons.prems d s by simp
      then show ?thesis using Cons.IH f wrote_only_trans by blast
    qed
  qed
qed

lemma model_loop_h_wrote_only:
  "model_loop_h mas lst w = (r, w') \<Longrightarrow> wrote_only lst w w'"
proof (induction mas arbitrary: w)
  case Nil
  then show ?case by (simp add: wrote_only_refl)
next
  case (Cons ma mas)
  show ?case
  proof (cases "\<exists>cas. deref w ma = Some (OEntity cas)")
    case False
    then have "model_loop_h (ma # mas) lst w = (Inl TypeError, w)"
      by (auto split: option.splits pyobj.splits)
    then show ?thesis using Cons.prems by (simp add: wrote_only_refl)
  next
    case True
    then obtain cas where d: "deref w ma = Some (OEntity cas)" by blast
    obtain r1 w1 where s: "chain_loop_h cas lst w = (r1, w1)"
      by (cases "chain_loop_h cas lst w")
    have f: "wrote_only lst w w1" using s by (rule chain_loop_h_wrote_only)
    show ?thesis
    proof (cases r1)
      case (Inl e)
      then show ?thesis using Cons.prems d s f by simp
    next
      case (Inr u)
      then have "model_loop_h mas lst w1 = (r, w')" using Cons.prems d s by simp
      then show ?thesis using Cons.IH f wrote_only_trans by blast
    qed
  qed
qed

lemma fresh_record_append: "fresh_record n h v \<Longrightarrow> fresh_record n (h @ xs) v"
  by (auto simp add: fresh_record_def nth_append split: pyval.splits pyobj.splits)

lemma fresh_record_update:
  assumes "fresh_record n h v" and "h ! lst = OList vs"
  shows "fresh_record n (h[lst := OList vs']) v"
proof -
  from assms(1) obtain d kvs where v: "v = VRef d" and d: "n \<le> d" "d < length h"
    and k: "h ! d = ODict kvs" "list_all (\<lambda>kv. fresh_value n (snd kv)) kvs"
    by (auto simp add: fresh_record_def split: pyval.splits pyobj.splits)
  have "d \<noteq> lst" using k(1) assms(2) by auto
  then have "h[lst := OList vs'] ! d = ODict kvs" using k(1) by simp
  then show ?thesis using v d k(2) by (simp add: fresh_record_def)
qed

lemma returned_records_append:
  assumes "returned_records n lst w" and "n \<le> length (heap w)"
    and "list_all (fresh_value n) (map snd kvs)"
    and "deref (w\<lparr>heap := heap w @ [l, ODict kvs]\<rparr>) lst = Some (OList vs)"
  shows "returned_records n lst
           (store lst (OList (vs @ [VRef (Suc (length (heap w)))]))
              (w\<lparr>heap := heap w @ [l, ODict kvs]\<rparr>))"
proof -
  let ?h = "heap w @ [l, ODict kvs]"
  from assms(1) have lt: "lst < length (heap w)" and
    ol: "case heap w ! lst of OList vs \<Rightarrow> list_all (fresh_record n (heap w)) vs | _ \<Rightarrow> False"
    by (simp_all add: returned_records_def)
  have hl: "?h ! lst = heap w ! lst" using lt by (simp add: nth_append)
  from assms(4) have v: "heap w ! lst = OList vs" using lt hl by (simp add: deref_def)
  then have fr: "list_all (fresh_record n (heap w)) vs" using ol by simp
  have a: "list_all (fresh_record n (?h[lst := OList (vs @ [VRef (Suc (length (heap w)))])])) vs"
    using fr fresh_record_append[of n "heap w" _ "[l, ODict kvs]"]
      fresh_record_update[of n ?h _ lst vs] hl v
    by (simp add: list_all_iff)
  have b: "fresh_record n (?h[lst := OList (vs @ [VRef (Suc (length (heap w)))])])
             (VRef (Suc (length (heap w))))"
    using assms(2,3) lt
    by (simp add: fresh_record_def nth_list_update nth_append list_all_iff)
  show ?thesis using a b lt by (simp add: returned_records_def store_def)
qed

lemma returned_records_extend:
  assumes "returned_records n lst w"
  shows "returned_records n lst (w\<lparr>heap := heap w @ xs\<rparr>)"
  using assms fresh_record_append[of n "heap w" _ xs]
  by (auto simp add: returned_records_def nth_append list_all_iff split: pyobj.splits)

lemma residue_step_records:
  assumes "residue_step cid ra lst w = (r, w')" and "n \<le> length (heap w)"
    and "returned_records n lst w"
  shows "returned_records n lst w'"
proof (cases "\<exists>name rid atoms aa ca bf xs. deref w ra = Some (OResidue name rid atoms) \<and>
    map_of atoms ''CA'' = Some aa \<and> deref w aa = Some (OAtom ca bf) \<and>
    deref w ca = Some (OArray xs)")
  case False
  then have "w' = w"
    using assms(1) unfolding residue_step_def
    by (auto split: option.splits pyobj.splits)
  then show ?thesis using assms(3) by simp
next
  case True
  then obtain name rid atoms aa ca bf xs where
    d: "deref w ra = Some (OResidue name rid atoms)" "map_of atoms ''CA'' = Some aa"
       "deref w aa = Some (OAtom ca bf)" "deref w ca = Some (OArray xs)"
    by blast
  let ?l = "OList (map VFloat xs)"
  let ?kvs = "[(''chain'', VStr cid), (''resname'', VStr name),
               (''resnum'', VInt (fst (snd rid))), (''ca_coord'', VRef (length (heap w))),
               (''plddt'', VFloat bf)]"
  let ?w2 = "w\<lparr>heap := heap w @ [?l, ODict ?kvs]\<rparr>"
  have fv: "list_all (fresh_value n) (map snd ?kvs)" using assms(2) by (simp add: fresh_value_def)
  show ?thesis
  proof (cases "\<exists>vs. deref ?w2 lst = Some (OList vs)")
    case False
    then have "w' = ?w2"
      using assms(1) d unfolding residue_step_def
      by (auto simp add: alloc_def split: option.splits pyobj.splits)
    then show ?thesis using returned_records_extend[OF assms(3)] by simp
  next
    case True
    then obtain vs where v: "deref ?w2 lst = Some (OList vs)" by blast
    have "w' = store lst (OList (vs @ [VRef (Suc (length (heap w)))])) ?w2"
      using assms(1) d v unfolding residue_step_def by (simp add: alloc_def)
    then show ?thesis using returned_records_append[OF assms(3,2) fv v] by simp
  qed
qed

lemma wrote_only_length: "wrote_only lst w w' \<Longrightarrow> n \<le> length (heap w) \<Longrightarrow> n \<le> length (heap w')"
  by (simp add: wrote_only_iff)

lemma residue_loop_h_records:
  "residue_loop_h cid ras lst w = (r, w') \<Longrightarrow> n \<le> length (heap w) \<Longrightarrow>
   returned_records n lst w \<Longrightarrow> returned_records n lst w'"
proof (induction ras arbitrary: w)
  case Nil
  then show ?case by simp
next
  case (Cons ra ras)
  obtain r1 w1 where s: "residue_step cid ra lst w = (r1, w1)" by (cases "residue_step cid ra lst w")
  have f: "returned_records n lst w1" using s Cons.prems(2,3) by (rule residue_step_records)
  have l: "n \<le> length (heap w1)"
    using wrote_only_length[OF residue_step_wrote_only[OF s] Cons.prems(2)] .
  show ?case
  proof (cases r1)
    case (Inl e)
    then show ?thesis using Cons.prems s f by simp
  next
    case (Inr u)
    then have "residue_loop_h cid ras lst w1 = (r, w')" using Cons.prems s by simp
    then show ?thesis using Cons.IH f l by blast
  qed
qed

lemma chain_loop_h_records:
  "chain_loop_h cas lst w = (r, w') \<Longrightarrow> n \<le> length (heap w) \<Longrightarrow>
   returned_records n lst w \<Longrightarrow> returned_records n lst w'"
proof (induction cas arbitrary: w)
  case Nil
  then show ?case by simp
next
  case (Cons ca cas)
  show ?case
  proof (cases "\<exists>cid ras. deref w ca = Some (OChain cid ras)")
    case False
    then have "chain_loop_h (ca # cas) lst w = (Inl TypeError, w)"
      by (auto split: option.splits pyobj.splits)
    then show ?thesis using Cons.prems by simp
  next
    case True
    then obtain cid ras where d: "deref w ca = Some (OChain cid ras)" by blast
    obtain r1 w1 where s: "residue_loop_h cid ras lst w = (r1, w1)"
      by (cases "residue_loop_h cid ras lst w")
    have f: "returned_records n lst w1" using s Cons.prems(2,3) by (rule residue_loop_h_records)
    have l: "n \<le> length (heap w1)"
      using wrote_only_length[OF residue_loop_h_wrote_only[OF s] Cons.prems(2)] .
    show ?thesis
    proof (cases r1)
      case (Inl e)
      then show ?thesis using Cons.prems d s f by simp
    next
      case (Inr u)
      then have "chain_loop_h cas lst w1 = (r, w')" using Cons.prems d s by simp
      then show ?thesis using Cons.IH f l by blast
    qed
  qed
qed

lemma model_loop_h_records:
  "model_loop_h mas lst w = (r, w') \<Longrightarrow> n \<le> length (heap w) \<Longrightarrow>
   returned_records n lst w \<Longrightarrow> returned_records n lst w'"
proof (induction mas arbitrary: w)
  case Nil
  then show ?case by simp
next
  case (Cons ma mas)
  show ?case
  proof (cases "\<exists>cas. deref w ma = Some (OEntity cas)")
    case False
    then have "model_loop_h (ma # mas) lst w = (Inl TypeError, w)"
      by (auto split: option.splits pyobj.splits)
    then show ?thesis using Cons.prems by simp
  next
    case True
    then obtain cas where d: "deref w ma = Some (OEntity cas)" by blast
    obtain r1 w1 where s: "chain_loop_h cas lst w = (r1, w1)"
      by (cases "chain_loop_h cas lst w")
    have f: "returned_records n lst w1" using s Cons.prems(2,3) by (rule chain_loop_h_records)
    have l: "n \<le> length (heap w1)"
      using wrote_only_length[OF chain_loop_h_wrote_only[OF s] Cons.prems(2)] .
    show ?thesis
    proof (cases r1)
      case (Inl e)
      then show ?thesis using Cons.prems d s f by simp
    next
      case (Inr u)
      then have "model_loop_h mas lst w1 = (r, w')" using Cons.prems d s by simp
      then show ?thesis using Cons.IH f l by blast
    qed
  qed
qed

text \<open>
  C6. The reader is read-only on everything it did not create. Whatever the library's
  parser did, from the state in which the parser returned to the state in which the
  reader returns (or raises) the files are the same and every object that existed, the
  parsed structure among them, is as it was; if the parser raises, the reader raises the
  same error in the same state. The only output is the returned list: it is a new object,
  and its records and their coordinate lists are new objects too.
\<close>

theorem get_alpha_carbon_info_read_only:
  assumes "get_structure pdb_file w = (r, w1)"
    and "get_alpha_carbon_info_heap get_structure pdb_file w = (res, w2)"
  shows "files w2 = files w1 \<and> take (length (heap w1)) (heap w2) = heap w1 \<and>
         (\<forall>e. r = Inl e \<longrightarrow> res = Inl e \<and> w2 = w1) \<and>
         (\<forall>lst. res = Inr lst \<longrightarrow>
            lst = length (heap w1) \<and> returned_records (length (heap w1)) lst w2)"
proof (cases r)
  case (Inl e)
  then show ?thesis using assms by (auto simp add: get_alpha_carbon_info_heap_def)
next
  case (Inr s)
  let ?n = "length (heap w1)"
  let ?w = "w1\<lparr>heap := heap w1 @ [OList []]\<rparr>"
  have r0: "returned_records ?n ?n ?w" by (simp add: returned_records_def)
  have w0: "wrote_only ?n w1 ?w" by (simp add: wrote_only_iff nth_append)
  have "wrote_only ?n ?w w2 \<and> returned_records ?n ?n w2 \<and> (\<forall>lst. res = Inr lst \<longrightarrow> lst = ?n)"
  proof (cases "\<exists>mas. deref ?w s = Some (OEntity mas)")
    case False
    then have "w2 = ?w \<and> res = Inl TypeError"
      using assms Inr unfolding get_alpha_carbon_info_heap_def
      by (auto simp add: alloc_def split: option.splits pyobj.splits)
    then show ?thesis using r0 by (simp add: wrote_only_refl)
  next
    case True
    then obtain mas where d: "deref ?w s = Some (OEntity mas)" by blast
    obtain r1 w3 where m: "model_loop_h mas ?n ?w = (r1, w3)"
      by (cases "model_loop_h mas ?n ?w")
    have "w2 = w3 \<and> (\<forall>lst. res = Inr lst \<longrightarrow> lst = ?n)"
      using assms Inr d m unfolding get_alpha_carbon_info_heap_def
      by (cases r1) (auto simp add: alloc_def)
    then show ?thesis
      using model_loop_h_wrote_only[OF m] model_loop_h_records[OF m _ r0] by simp
  qed
  then have wo: "wrote_only ?n w1 w2" and rr: "returned_records ?n ?n w2"
    and rl: "\<forall>lst. res = Inr lst \<longrightarrow> lst = ?n"
    using w0 wrote_only_trans by blast+
  have "take ?n (heap w2) = heap w1"
    using wo by (intro nth_equalityI) (auto simp add: wrote_only_iff)
  then show ?thesis using wo rr rl Inr by (auto simp add: wrote_only_iff)
qed

theorem get_alpha_carbon_info_read_only_witness:
  "get_alpha_carbon_info_heap
     (\<lambda>f w. (Inr 0, w\<lparr>heap := [OEntity [1], OEntity [2], OChain ''A'' [3, 4],
          OResidue ''GLY'' ('' '', 1, '' '') [(''N'', 9), (''CA'', 5)],
          OResidue ''HOH'' (''W'', 2, '' '') [(''O'', 7)],
          OAtom 6 90, OArray [1, 2, 3], OAtom 8 10, OArray [4, 5, 6], OAtom 6 50]\<rparr>))
     ''a.pdb'' \<lparr>files = [''a.pdb'' \<mapsto> ''ATOM''], heap = []\<rparr>
   = (Inr 10, \<lparr>files = [''a.pdb'' \<mapsto> ''ATOM''],
        heap = [OEntity [1], OEntity [2], OChain ''A'' [3, 4],
            OResidue ''GLY'' ('' '', 1, '' '') [(''N'', 9), (''CA'', 5)],
            OResidue ''HOH'' (''W'', 2, '' '') [(''O'', 7)],
            OAtom 6 90, OArray [1, 2, 3], OAtom 8 10, OArray [4, 5, 6], OAtom 6 50] @
         [OList [VRef 12], OList [VFloat 1, VFloat 2, VFloat 3],
          ODict [(''chain'', VStr ''A''), (''resname'', VStr ''GLY''), (''resnum'', VInt 1),
                 (''ca_coord'', VRef 11), (''plddt'', VFloat 90)]]\<rparr>) \<and>
   returned_records 10 10 \<lparr>files = [''a.pdb'' \<mapsto> ''ATOM''],
        heap = [OEntity [1], OEntity [2], OChain ''A'' [3, 4],
            OResidue ''GLY'' ('' '', 1, '' '') [(''N'', 9), (''CA'', 5)],
            OResidue ''HOH'' (''W'', 2, '' '') [(''O'', 7)],
            OAtom 6 90, OArray [1, 2, 3], OAtom 8 10, OArray [4, 5, 6], OAtom 6 50] @
         [OList [VRef 12], OList [VFloat 1, VFloat 2, VFloat 3],
          ODict [(''chain'', VStr ''A''), (''resname'', VStr ''GLY''), (''resnum'', VInt 1),
                 (''ca_coord'', VRef 11), (''plddt'', VFloat 90)]]\<rparr>"
proof -
  let ?H = "[OEntity [1], OEntity [2], OChain ''A'' [3, 4],
          OResidue ''GLY'' ('' '', 1, '' '') [(''N'', 9), (''CA'', 5)],
          OResidue ''HOH'' (''W'', 2, '' '') [(''O'', 7)],
          OAtom 6 90, OArray [1, 2, 3], OAtom 8 10, OArray [4, 5, 6], OAtom 6 50]"
  let ?R = "[OList [VRef 12], OList [VFloat 1, VFloat 2, VFloat 3],
          ODict [(''chain'', VStr ''A''), (''resname'', VStr ''GLY''), (''resnum'', VInt 1),
                 (''ca_coord'', VRef 11), (''plddt'', VFloat 90)]]"
  let ?P = "\<lambda>(f :: string) w. (Inr 0 :: error + nat, w\<lparr>heap := ?H\<rparr>)"
  let ?w = "\<lparr>files = [''a.pdb'' \<mapsto> ''ATOM''], heap = []\<rparr>"
  let ?w1 = "\<lparr>files = [''a.pdb'' \<mapsto> ''ATOM''], heap = ?H\<rparr>"
  let ?w2 = "\<lparr>files = [''a.pdb'' \<mapsto> ''ATOM''], heap = ?H @ ?R\<rparr>"
  have p: "?P ''a.pdb'' ?w = (Inr 0, ?w1)" by simp
  have e: "get_alpha_carbon_info_heap ?P ''a.pdb'' ?w = (Inr 10, ?w2)"
    by (simp add: get_alpha_carbon_info_heap_def residue_step_def alloc_def store_def deref_def)
  have l: "length (heap ?w1) = 10" by simp
  from get_alpha_carbon_info_read_only[OF p e]
  have "Inr 10 = (Inr 10 :: error + nat) \<longrightarrow>
        10 = length (heap ?w1) \<and> returned_records (length (heap ?w1)) 10 ?w2"
    by blast
  then have "returned_records (length (heap ?w1)) 10 ?w2" by blast
  then have "returned_records 10 10 ?w2" by (simp only: l)
  then show ?thesis using e by blast
qed

end
